theory Spec2Isabelle
  imports Main
begin

section \<open>The runtime: environment, property lookup, parseInt\<close>

text \<open>
  \<open>process.env\<close>: a partial map from variable names to text. Text is modelled as
  \<open>string\<close>: a list of code units below 256.
\<close>

type_synonym env = "string \<rightharpoonup> string"

text \<open>
  \<open>process.env.X || d\<close>: an unset variable and the empty string are both falsy, so the
  default is taken for both.
\<close>

definition env_or :: "env \<Rightarrow> string \<Rightarrow> string \<Rightarrow> string" where
  "env_or e k d = (case e k of None \<Rightarrow> d | Some v \<Rightarrow> if v = [] then d else v)"

text \<open>
  The result of reading \<open>obj[key]\<close> on an object literal: an own property, a property
  every plain object inherits from the object prototype (a function, or the prototype
  itself for \<open>__proto__\<close>: truthy values without the fields of an own entry), or
  \<open>undefined\<close>.
\<close>

datatype 'a js_prop = Own 'a | Inherited | Undefined

definition object_prototype_keys :: "string list" where
  "object_prototype_keys =
     [''constructor'', ''__defineGetter__'', ''__defineSetter__'', ''hasOwnProperty'',
      ''__lookupGetter__'', ''__lookupSetter__'', ''isPrototypeOf'',
      ''propertyIsEnumerable'', ''toString'', ''valueOf'', ''__proto__'',
      ''toLocaleString'']"

text \<open>
  A number as \<open>parseInt\<close> returns it. \<open>Num n\<close> is the integer \<open>n\<close>, of magnitude at most
  \<open>2^53\<close>, which a double holds exactly (the sign of zero is not kept apart).
  \<open>Rounded n\<close> stands for the double the runtime makes of an integer \<open>n\<close> beyond that
  magnitude: a double near \<open>n\<close>, or an infinity; the model does not compute it.
\<close>

datatype js_number = NaN | Num int | Rounded int

text \<open>
  White space that \<open>parseInt\<close> skips, among the code units below 256: tab, line feed,
  vertical tab, form feed, carriage return, space and the no-break space.
\<close>

definition is_js_space :: "char \<Rightarrow> bool" where
  "is_js_space c =
     (c \<in> set [CHR 0x09, CHR 0x0A, CHR 0x0B, CHR 0x0C, CHR 0x0D, CHR 0x20, CHR 0xA0])"

definition digit_value :: "char \<Rightarrow> nat option" where
  "digit_value c =
     (let n = (of_char c :: nat) in
      if 48 \<le> n \<and> n \<le> 57 then Some (n - 48)
      else if 97 \<le> n \<and> n \<le> 122 then Some (n - 87)
      else if 65 \<le> n \<and> n \<le> 90 then Some (n - 55)
      else None)"

definition is_digit_in :: "nat \<Rightarrow> char \<Rightarrow> bool" where
  "is_digit_in radix c = (case digit_value c of None \<Rightarrow> False | Some d \<Rightarrow> d < radix)"

definition digits_value :: "nat \<Rightarrow> string \<Rightarrow> nat" where
  "digits_value radix z = foldl (\<lambda>a c. a * radix + (case digit_value c of None \<Rightarrow> 0 | Some d \<Rightarrow> d)) 0 z"

text \<open>
  \<open>parseInt(s)\<close> with no radix: leading white space is skipped, then an optional sign,
  then an optional \<open>0x\<close>/\<open>0X\<close> (radix 16, else 10); the longest run of digits is read
  and what follows is ignored; no digit at all gives \<open>NaN\<close>.
\<close>

definition parseInt :: "string \<Rightarrow> js_number" where
  "parseInt inp =
     (let s = dropWhile is_js_space inp;
          neg = (take 1 s = ''-'');
          s1 = (if take 1 s = ''-'' \<or> take 1 s = ''+'' then drop 1 s else s);
          hex = (take 2 s1 = ''0x'' \<or> take 2 s1 = ''0X'');
          radix = (if hex then 16 else 10);
          s2 = (if hex then drop 2 s1 else s1);
          z = takeWhile (is_digit_in radix) s2
      in if z = [] then NaN
         else if digits_value radix z \<le> 9007199254740992
         then Num ((if neg then - 1 else 1) * int (digits_value radix z))
         else Rounded ((if neg then - 1 else 1) * int (digits_value radix z)))"

section \<open>knexfile: the connection configuration\<close>

record connection_params =
  host :: string
  port :: js_number
  user :: string
  password :: string
  database :: string

text \<open>
  What \<open>buildConnectionConfig\<close> returns: a connection string, the five connection
  parameters, or an object with the file name of the embedded database.
\<close>

datatype connection_config =
  ConnectionString string
  | ConnectionParams connection_params
  | Filename string

record pool_config =
  pool_min :: js_number
  pool_max :: js_number
  acquireTimeoutMillis :: "nat option"
  idleTimeoutMillis :: "nat option"

record knex_config =
  client :: string
  connection :: connection_config
  pool :: "pool_config option"
  useNullAsDefault :: bool
  migrations_directory :: string

text \<open>\<open>const DB_CLIENT = process.env.DB_CLIENT || "better-sqlite3"\<close>\<close>

definition DB_CLIENT :: "env \<Rightarrow> string" where
  "DB_CLIENT e = env_or e ''DB_CLIENT'' ''better-sqlite3''"

text \<open>
  The functions below read the module constant \<open>DB_CLIENT\<close> (their first argument)
  and \<open>process.env\<close> as it is when they are called.
\<close>

definition buildConnectionConfig :: "string \<Rightarrow> env \<Rightarrow> connection_config" where
  "buildConnectionConfig db_client e =
     (if db_client = ''pg'' \<or> db_client = ''postgresql'' then
        (case e ''DATABASE_URL'' of
           Some url \<Rightarrow>
             if url \<noteq> [] then ConnectionString url
             else ConnectionParams
               \<lparr>host = env_or e ''DB_HOST'' ''127.0.0.1'',
                port = parseInt (env_or e ''DB_PORT'' ''5432''),
                user = env_or e ''DB_USER'' ''postgres'',
                password = env_or e ''DB_PASSWORD'' '''',
                database = env_or e ''DB_NAME'' ''laju''\<rparr>
         | None \<Rightarrow>
             ConnectionParams
               \<lparr>host = env_or e ''DB_HOST'' ''127.0.0.1'',
                port = parseInt (env_or e ''DB_PORT'' ''5432''),
                user = env_or e ''DB_USER'' ''postgres'',
                password = env_or e ''DB_PASSWORD'' '''',
                database = env_or e ''DB_NAME'' ''laju''\<rparr>)
      else if db_client = ''mysql'' \<or> db_client = ''mysql2'' then
        ConnectionParams
          \<lparr>host = env_or e ''DB_HOST'' ''127.0.0.1'',
           port = parseInt (env_or e ''DB_PORT'' ''3306''),
           user = env_or e ''DB_USER'' ''root'',
           password = env_or e ''DB_PASSWORD'' '''',
           database = env_or e ''DB_NAME'' ''laju''\<rparr>
      else Filename (env_or e ''DB_FILENAME'' ''./data/dev.sqlite3''))"

definition buildPoolConfig :: "string \<Rightarrow> env \<Rightarrow> pool_config" where
  "buildPoolConfig db_client e =
     (if db_client = ''better-sqlite3'' \<or> db_client = ''sqlite3'' then
        \<lparr>pool_min = Num 1, pool_max = Num 1,
         acquireTimeoutMillis = None, idleTimeoutMillis = None\<rparr>
      else
        \<lparr>pool_min = parseInt (env_or e ''DB_POOL_MIN'' ''0''),
         pool_max = parseInt (env_or e ''DB_POOL_MAX'' ''10''),
         acquireTimeoutMillis = Some 30000, idleTimeoutMillis = Some 30000\<rparr>)"

definition isSQLite :: "string \<Rightarrow> bool" where
  "isSQLite db_client = (db_client = ''better-sqlite3'' \<or> db_client = ''sqlite3'')"

definition getClientName :: "string \<Rightarrow> string" where
  "getClientName db_client =
     (if db_client = ''pg'' \<or> db_client = ''postgresql'' then ''pg''
      else if db_client = ''mysql'' \<or> db_client = ''mysql2'' then ''mysql2''
      else ''better-sqlite3'')"

text \<open>
  The module's default export: the object literal with the three stages, built once,
  when the module is evaluated.
\<close>

record knexfile_config =
  development :: knex_config
  production :: knex_config
  test :: knex_config

definition knexfile :: "env \<Rightarrow> knexfile_config" where
  "knexfile e =
     \<lparr>development =
        \<lparr>client = getClientName (DB_CLIENT e),
         connection = buildConnectionConfig (DB_CLIENT e) e,
         pool = Some (buildPoolConfig (DB_CLIENT e) e),
         useNullAsDefault = isSQLite (DB_CLIENT e),
         migrations_directory = ''./migrations''\<rparr>,
      production =
        \<lparr>client = getClientName (DB_CLIENT e),
         connection = buildConnectionConfig (DB_CLIENT e) e,
         pool = Some (buildPoolConfig (DB_CLIENT e) e),
         useNullAsDefault = isSQLite (DB_CLIENT e),
         migrations_directory = ''./migrations''\<rparr>,
      test =
        \<lparr>client = ''better-sqlite3'',
         connection = Filename ''./data/test.sqlite3'',
         pool = None,
         useNullAsDefault = True,
         migrations_directory = ''./migrations''\<rparr>\<rparr>"

text \<open>\<open>config[stage]\<close>\<close>

definition config_get :: "knexfile_config \<Rightarrow> string \<Rightarrow> knex_config js_prop" where
  "config_get cfg stage =
     (if stage = ''development'' then Own (development cfg)
      else if stage = ''production'' then Own (production cfg)
      else if stage = ''test'' then Own (test cfg)
      else if stage \<in> set object_prototype_keys then Inherited
      else Undefined)"

text \<open>\<open>config[stage]?.client\<close>: \<open>undefined\<close> unless the stage is an own entry.\<close>

definition config_client :: "knexfile_config \<Rightarrow> string \<Rightarrow> string option" where
  "config_client cfg stage =
     (case config_get cfg stage of Own c \<Rightarrow> Some (client c) | Inherited \<Rightarrow> None | Undefined \<Rightarrow> None)"

section \<open>The running process\<close>

text \<open>
  A process: \<open>process.env\<close> as it is now, and the export of the configuration module,
  which was evaluated once, when the module was first imported.
\<close>

record process =
  process_env :: env
  config :: knexfile_config

definition start :: "env \<Rightarrow> process" where
  "start e = \<lparr>process_env = e, config = knexfile e\<rparr>"

text \<open>A later change of the environment: an assignment to or a deletion from \<open>process.env\<close>.\<close>

datatype env_change = SetEnv string string | DeleteEnv string

fun change_env :: "process \<Rightarrow> env_change \<Rightarrow> process" where
  "change_env p (SetEnv k v) = p\<lparr>process_env := (process_env p)(k \<mapsto> v)\<rparr>"
| "change_env p (DeleteEnv k) = p\<lparr>process_env := (process_env p)(k := None)\<rparr>"

text \<open>A request for a stage's descriptor: \<open>config[stage]\<close> on the imported object.\<close>

definition stage_config :: "process \<Rightarrow> string \<Rightarrow> knex_config js_prop" where
  "stage_config p stage = config_get (config p) stage"

section \<open>DB: the query-builder service\<close>

datatype error = Error string | TypeError string | SqliteError string

text \<open>
  A query-builder instance, as far as this module uses it: the configuration it was
  created from, the texts of the queries built with \<open>instance.raw\<close> so far (in order),
  and the texts of the statements that were sent to the database (in order). The query
  builder itself is not part of the repository.
\<close>

record knex_instance =
  instance_config :: "knex_config js_prop"
  raw_built :: "string list"
  executed :: "string list"

text \<open>
  \<open>instance.raw(sql)\<close> builds a query object and returns it. The query is sent to the
  database only when the object is awaited; building it sends nothing and does not
  throw.
\<close>

datatype raw_query = Raw string

definition raw :: "knex_instance \<Rightarrow> string \<Rightarrow> (error + raw_query) \<times> knex_instance" where
  "raw inst sql = (Inr (Raw sql), inst\<lparr>raw_built := raw_built inst @ [sql]\<rparr>)"

text \<open>
  The body of the \<open>try\<close> block: four queries are built, one after the other, and each
  result is dropped. A call that threw would end the block.
\<close>

definition pragma_block :: "knex_instance \<Rightarrow> (error + unit) \<times> knex_instance" where
  "pragma_block i0 =
     (case raw i0 ''PRAGMA journal_mode = WAL'' of
        (Inl err, i1) \<Rightarrow> (Inl err, i1)
      | (Inr _, i1) \<Rightarrow>
     (case raw i1 ''PRAGMA synchronous = NORMAL'' of
        (Inl err, i2) \<Rightarrow> (Inl err, i2)
      | (Inr _, i2) \<Rightarrow>
     (case raw i2 ''PRAGMA foreign_keys = ON'' of
        (Inl err, i3) \<Rightarrow> (Inl err, i3)
      | (Inr _, i3) \<Rightarrow>
     (case raw i3 ''PRAGMA busy_timeout = 5000'' of
        (Inl err, i4) \<Rightarrow> (Inl err, i4)
      | (Inr _, i4) \<Rightarrow> (Inr (), i4)))))"

text \<open>
  \<open>config[process.env.DB_CONNECTION]\<close>: an unset variable is the key \<open>undefined\<close>,
  which the object does not have.
\<close>

definition active_stage :: "process \<Rightarrow> string" where
  "active_stage p = (case process_env p ''DB_CONNECTION'' of None \<Rightarrow> ''undefined'' | Some s \<Rightarrow> s)"

text \<open>
  \<open>applyDatabaseOptimizations(instance)\<close>: the outcome (an exception, if one left the
  function), the instance afterwards, and the warnings written to the console.
\<close>

definition applyDatabaseOptimizations ::
  "process \<Rightarrow> knex_instance \<Rightarrow> (error + unit) \<times> knex_instance \<times> (string \<times> error) list" where
  "applyDatabaseOptimizations p instance =
     (let connectionClient = config_client (config p) (active_stage p) in
      if connectionClient = Some ''better-sqlite3'' \<or> connectionClient = Some ''sqlite3'' then
        (case pragma_block instance of
           (Inl err, instance') \<Rightarrow>
             (Inr (), instance', [(''Failed to apply SQLite PRAGMA:'', err)])
         | (Inr _, instance') \<Rightarrow> (Inr (), instance', []))
      else (Inr (), instance, []))"

text \<open>
  \<open>DB.connection(stage)\<close>. \<open>DBInstance\<close> is the query builder's constructor (a
  parameter); an exception of it is not caught.
\<close>

definition DB_connection ::
  "(knex_config js_prop \<Rightarrow> error + knex_instance) \<Rightarrow> process \<Rightarrow> string
    \<Rightarrow> error + knex_instance \<times> (string \<times> error) list" where
  "DB_connection DBInstance p stage =
     (case DBInstance (config_get (config p) stage) of
        Inl err \<Rightarrow> Inl err
      | Inr instance \<Rightarrow>
          (case applyDatabaseOptimizations p instance of
             (Inl err, instance', warnings) \<Rightarrow> Inl err
           | (Inr _, instance', warnings) \<Rightarrow> Inr (instance', warnings)))"

text \<open>The settings of the specification, in its order.\<close>

definition pragma_settings :: "string list" where
  "pragma_settings =
     [''PRAGMA journal_mode = WAL'', ''PRAGMA synchronous = NORMAL'',
      ''PRAGMA foreign_keys = ON'', ''PRAGMA busy_timeout = 5000'']"

definition embedded_client :: "knex_config js_prop \<Rightarrow> bool" where
  "embedded_client d =
     (case d of Own c \<Rightarrow> client c = ''better-sqlite3'' \<or> client c = ''sqlite3''
      | Inherited \<Rightarrow> False | Undefined \<Rightarrow> False)"

section \<open>SQLite: the native service\<close>

datatype js_value = VNull | VInt int | VText string

type_synonym row = "(string \<times> js_value) list"

text \<open>
  The \<open>params\<close> argument as a caller can pass it: an array, a plain object (its own
  enumerable properties, in enumeration order), \<open>null\<close>, or nothing.
\<close>

datatype js_params =
  ParamArray "js_value list"
  | ParamObject "(string \<times> js_value) list"
  | ParamNull
  | ParamUndefined

record run_result =
  changes :: nat
  lastInsertRowid :: int

text \<open>
  The embedded driver, which is not part of the repository, is a parameter: opening a
  file, setting a pragma, compiling a text against the database, and the three ways of
  executing a compiled statement with bound parameters. \<open>'db\<close> is the content of the
  database, \<open>'stmt\<close> a compiled statement.
\<close>

record ('db, 'stmt) driver =
  open_database :: "string \<Rightarrow> error + 'db"
  pragma :: "'db \<Rightarrow> string \<Rightarrow> error + 'db"
  prepare :: "'db \<Rightarrow> string \<Rightarrow> error + 'stmt"
  stmt_get :: "'stmt \<Rightarrow> js_value list \<Rightarrow> 'db \<Rightarrow> (error + row option) \<times> 'db"
  stmt_all :: "'stmt \<Rightarrow> js_value list \<Rightarrow> 'db \<Rightarrow> (error + row list) \<times> 'db"
  stmt_run :: "'stmt \<Rightarrow> js_value list \<Rightarrow> 'db \<Rightarrow> (error + run_result) \<times> 'db"

text \<open>
  The state the service closes over: the database, the statement cache (a plain
  object), and the console. \<open>prepare_calls\<close> records the texts handed to
  \<open>nativeDb.prepare\<close>, in order: a counter on the compile step.
\<close>

record ('db, 'stmt) native =
  nativeDb :: 'db
  statementCache :: "string \<rightharpoonup> 'stmt"
  prepare_calls :: "string list"
  console_errors :: "(string \<times> error) list"

datatype ('db, 'stmt) service = Stub string | Native "('db, 'stmt) native"

text \<open>\<open>const connectionType = process.env.DB_CONNECTION || 'development'\<close>\<close>

definition connectionType :: "process \<Rightarrow> string" where
  "connectionType p = env_or (process_env p) ''DB_CONNECTION'' ''development''"

definition clientType :: "process \<Rightarrow> string option" where
  "clientType p = config_client (config p) (connectionType p)"

definition isSQLiteClient :: "process \<Rightarrow> bool" where
  "isSQLiteClient p = (clientType p = Some ''better-sqlite3'' \<or> clientType p = Some ''sqlite3'')"

text \<open>A value inside a template literal: \<open>undefined\<close> is written out as such.\<close>

definition template_text :: "string option \<Rightarrow> string" where
  "template_text v = (case v of None \<Rightarrow> ''undefined'' | Some t \<Rightarrow> t)"

definition errorMsg :: "process \<Rightarrow> string" where
  "errorMsg p =
     ''SQLite service is not available with '' @ template_text (clientType p)
       @ '' client. Use DB service instead.''"

definition createStubService :: "process \<Rightarrow> ('db, 'stmt) service" where
  "createStubService p = Stub (errorMsg p)"

text \<open>The four pragmas of \<open>createSQLiteService\<close>: none is guarded.\<close>

definition native_pragmas :: "('db, 'stmt) driver \<Rightarrow> 'db \<Rightarrow> error + 'db" where
  "native_pragmas drv d0 =
     (case pragma drv d0 ''journal_mode = WAL'' of Inl err \<Rightarrow> Inl err | Inr d1 \<Rightarrow>
     (case pragma drv d1 ''synchronous = NORMAL'' of Inl err \<Rightarrow> Inl err | Inr d2 \<Rightarrow>
     (case pragma drv d2 ''foreign_keys = ON'' of Inl err \<Rightarrow> Inl err | Inr d3 \<Rightarrow>
        pragma drv d3 ''busy_timeout = 5000'')))"

definition createSQLiteService ::
  "('db, 'stmt) driver \<Rightarrow> process \<Rightarrow> error + ('db, 'stmt) service" where
  "createSQLiteService drv p =
     (case config_get (config p) (connectionType p) of
        Own dbConfig \<Rightarrow>
          (case connection dbConfig of
             Filename filename \<Rightarrow>
               (case open_database drv filename of
                  Inl err \<Rightarrow> Inl err
                | Inr d0 \<Rightarrow>
                    (case native_pragmas drv d0 of
                       Inl err \<Rightarrow> Inl err
                     | Inr d \<Rightarrow>
                         Inr (Native \<lparr>nativeDb = d, statementCache = Map.empty,
                                      prepare_calls = [], console_errors = []\<rparr>)))
           | ConnectionString url \<Rightarrow>
               Inl (Error (''Invalid database configuration for connection: '' @ connectionType p))
           | ConnectionParams ps \<Rightarrow>
               Inl (Error (''Invalid database configuration for connection: '' @ connectionType p)))
      | Inherited \<Rightarrow>
          Inl (Error (''Invalid database configuration for connection: '' @ connectionType p))
      | Undefined \<Rightarrow>
          Inl (Error (''Invalid database configuration for connection: '' @ connectionType p)))"

text \<open>The module's export: the native service or the stub (or the import fails).\<close>

definition SQLiteService ::
  "('db, 'stmt) driver \<Rightarrow> process \<Rightarrow> error + ('db, 'stmt) service" where
  "SQLiteService drv p =
     (if isSQLiteClient p then createSQLiteService drv p else Inr (createStubService p))"

text \<open>
  \<open>Array.isArray(params) ? params : Object.values(params)\<close>, with the default \<open>[]\<close>
  for a missing argument. \<open>Object.values(null)\<close> throws.
\<close>

definition parameters_of :: "js_params \<Rightarrow> error + js_value list" where
  "parameters_of params =
     (case params of
        ParamUndefined \<Rightarrow> Inr []
      | ParamArray ps \<Rightarrow> Inr ps
      | ParamObject kvs \<Rightarrow> Inr (map snd kvs)
      | ParamNull \<Rightarrow> Inl (TypeError ''Cannot convert undefined or null to object''))"

text \<open>\<open>statementCache[sql]\<close>: the cache is a plain object.\<close>

definition cache_read :: "(string \<rightharpoonup> 'stmt) \<Rightarrow> string \<Rightarrow> 'stmt js_prop" where
  "cache_read c sql =
     (case c sql of
        Some stmt \<Rightarrow> Own stmt
      | None \<Rightarrow> if sql \<in> set object_prototype_keys then Inherited else Undefined)"

text \<open>
  The lines the three operations share: read the cache, compile and store when the
  entry is falsy. An inherited property is truthy and has no method \<open>m\<close>, so calling the
  method on it throws.
\<close>

definition cached_statement ::
  "string \<Rightarrow> ('db, 'stmt) driver \<Rightarrow> ('db, 'stmt) native \<Rightarrow> string
    \<Rightarrow> (error + 'stmt) \<times> ('db, 'stmt) native" where
  "cached_statement m drv st sql =
     (case cache_read (statementCache st) sql of
        Own stmt \<Rightarrow> (Inr stmt, st)
      | Inherited \<Rightarrow> (Inl (TypeError (''stmt.'' @ m @ '' is not a function'')), st)
      | Undefined \<Rightarrow>
          (case prepare drv (nativeDb st) sql of
             Inl err \<Rightarrow> (Inl err, st\<lparr>prepare_calls := prepare_calls st @ [sql]\<rparr>)
           | Inr stmt \<Rightarrow>
               (Inr stmt,
                st\<lparr>prepare_calls := prepare_calls st @ [sql],
                   statementCache := (statementCache st)(sql \<mapsto> stmt)\<rparr>)))"

text \<open>\<open>catch (error) { console.error(label, error); throw error; }\<close>\<close>

definition log_and_rethrow ::
  "string \<Rightarrow> (error + 'a) \<times> ('db, 'stmt) native \<Rightarrow> (error + 'a) \<times> ('db, 'stmt) native" where
  "log_and_rethrow label r =
     (case r of
        (Inl err, st) \<Rightarrow> (Inl err, st\<lparr>console_errors := console_errors st @ [(label, err)]\<rparr>)
      | (Inr v, st) \<Rightarrow> (Inr v, st))"

definition native_get ::
  "('db, 'stmt) driver \<Rightarrow> ('db, 'stmt) native \<Rightarrow> string \<Rightarrow> js_params
    \<Rightarrow> (error + row option) \<times> ('db, 'stmt) native" where
  "native_get drv st sql params =
     log_and_rethrow ''SQLite get error:''
       (case parameters_of params of
          Inl err \<Rightarrow> (Inl err, st)
        | Inr parameters \<Rightarrow>
            (case cached_statement ''get'' drv st sql of
               (Inl err, st1) \<Rightarrow> (Inl err, st1)
             | (Inr stmt, st1) \<Rightarrow>
                 (case stmt_get drv stmt parameters (nativeDb st1) of
                    (r, d) \<Rightarrow> (r, st1\<lparr>nativeDb := d\<rparr>))))"

definition native_all ::
  "('db, 'stmt) driver \<Rightarrow> ('db, 'stmt) native \<Rightarrow> string \<Rightarrow> js_params
    \<Rightarrow> (error + row list) \<times> ('db, 'stmt) native" where
  "native_all drv st sql params =
     log_and_rethrow ''SQLite all error:''
       (case parameters_of params of
          Inl err \<Rightarrow> (Inl err, st)
        | Inr parameters \<Rightarrow>
            (case cached_statement ''all'' drv st sql of
               (Inl err, st1) \<Rightarrow> (Inl err, st1)
             | (Inr stmt, st1) \<Rightarrow>
                 (case stmt_all drv stmt parameters (nativeDb st1) of
                    (r, d) \<Rightarrow> (r, st1\<lparr>nativeDb := d\<rparr>))))"

definition native_run ::
  "('db, 'stmt) driver \<Rightarrow> ('db, 'stmt) native \<Rightarrow> string \<Rightarrow> js_params
    \<Rightarrow> (error + run_result) \<times> ('db, 'stmt) native" where
  "native_run drv st sql params =
     log_and_rethrow ''SQLite run error:''
       (case parameters_of params of
          Inl err \<Rightarrow> (Inl err, st)
        | Inr parameters \<Rightarrow>
            (case cached_statement ''run'' drv st sql of
               (Inl err, st1) \<Rightarrow> (Inl err, st1)
             | (Inr stmt, st1) \<Rightarrow>
                 (case stmt_run drv stmt parameters (nativeDb st1) of
                    (r, d) \<Rightarrow> (r, st1\<lparr>nativeDb := d\<rparr>))))"

text \<open>
  A unit of work \<open>fn\<close>: what it does with the service handle it is given. It calls
  \<open>get\<close>, \<open>all\<close> and \<open>run\<close> on the handle, goes on from each outcome (it may catch an
  exception), and at last returns a value or throws.
\<close>

datatype 'a work =
  Return 'a
  | Throw error
  | Get string js_params "error + row option \<Rightarrow> 'a work"
  | All string js_params "error + row list \<Rightarrow> 'a work"
  | Run string js_params "error + run_result \<Rightarrow> 'a work"

primrec run_work ::
  "('db, 'stmt) driver \<Rightarrow> 'a work \<Rightarrow> ('db, 'stmt) native \<Rightarrow> (error + 'a) \<times> ('db, 'stmt) native" where
  "run_work drv (Return v) st = (Inr v, st)"
| "run_work drv (Throw err) st = (Inl err, st)"
| "run_work drv (Get sql params k) st =
     (case native_get drv st sql params of (r, st') \<Rightarrow> run_work drv (k r) st')"
| "run_work drv (All sql params k) st =
     (case native_all drv st sql params of (r, st') \<Rightarrow> run_work drv (k r) st')"
| "run_work drv (Run sql params k) st =
     (case native_run drv st sql params of (r, st') \<Rightarrow> run_work drv (k r) st')"

text \<open>
  Modelled from the spec: the embedded driver's transaction wrapper
  (\<open>nativeDb.transaction\<close>), which is not under the repository's sources. The
  statements of the wrapped function commit together when it returns; when it raises,
  they are rolled back entirely (the database is as it was when the wrapper was
  entered) and the error is raised again. What is not the database (the statement
  cache, the console) is not rolled back.
\<close>

definition nativeDb_transaction ::
  "(('db, 'stmt) native \<Rightarrow> (error + 'a) \<times> ('db, 'stmt) native)
    \<Rightarrow> ('db, 'stmt) native \<Rightarrow> (error + 'a) \<times> ('db, 'stmt) native" where
  "nativeDb_transaction body st =
     (case body st of
        (Inr v, st') \<Rightarrow> (Inr v, st')
      | (Inl err, st') \<Rightarrow> (Inl err, st'\<lparr>nativeDb := nativeDb st\<rparr>))"

text \<open>\<open>transaction(fn)\<close>: \<open>nativeDb.transaction(() => fn(service))()\<close>\<close>

definition native_transaction ::
  "('db, 'stmt) driver \<Rightarrow> ('db, 'stmt) native \<Rightarrow> 'a work
    \<Rightarrow> (error + 'a) \<times> ('db, 'stmt) native" where
  "native_transaction drv st fn = nativeDb_transaction (run_work drv fn) st"

text \<open>The members of the exported object, for the stub and for the native service.\<close>

definition isAvailable :: "('db, 'stmt) service \<Rightarrow> bool" where
  "isAvailable svc = (case svc of Stub msg \<Rightarrow> False | Native st \<Rightarrow> True)"

definition getDatabase :: "('db, 'stmt) service \<Rightarrow> 'db option" where
  "getDatabase svc = (case svc of Stub msg \<Rightarrow> None | Native st \<Rightarrow> Some (nativeDb st))"

definition svc_get ::
  "('db, 'stmt) driver \<Rightarrow> ('db, 'stmt) service \<Rightarrow> string \<Rightarrow> js_params
    \<Rightarrow> (error + row option) \<times> ('db, 'stmt) service" where
  "svc_get drv svc sql params =
     (case svc of
        Stub msg \<Rightarrow> (Inl (Error msg), Stub msg)
      | Native st \<Rightarrow> (case native_get drv st sql params of (r, st') \<Rightarrow> (r, Native st')))"

definition svc_all ::
  "('db, 'stmt) driver \<Rightarrow> ('db, 'stmt) service \<Rightarrow> string \<Rightarrow> js_params
    \<Rightarrow> (error + row list) \<times> ('db, 'stmt) service" where
  "svc_all drv svc sql params =
     (case svc of
        Stub msg \<Rightarrow> (Inl (Error msg), Stub msg)
      | Native st \<Rightarrow> (case native_all drv st sql params of (r, st') \<Rightarrow> (r, Native st')))"

definition svc_run ::
  "('db, 'stmt) driver \<Rightarrow> ('db, 'stmt) service \<Rightarrow> string \<Rightarrow> js_params
    \<Rightarrow> (error + run_result) \<times> ('db, 'stmt) service" where
  "svc_run drv svc sql params =
     (case svc of
        Stub msg \<Rightarrow> (Inl (Error msg), Stub msg)
      | Native st \<Rightarrow> (case native_run drv st sql params of (r, st') \<Rightarrow> (r, Native st')))"

definition svc_transaction ::
  "('db, 'stmt) driver \<Rightarrow> ('db, 'stmt) service \<Rightarrow> 'a work
    \<Rightarrow> (error + 'a) \<times> ('db, 'stmt) service" where
  "svc_transaction drv svc fn =
     (case svc of
        Stub msg \<Rightarrow> (Inl (Error msg), Stub msg)
      | Native st \<Rightarrow> (case native_transaction drv st fn of (r, st') \<Rightarrow> (r, Native st')))"

section \<open>Sequences of calls\<close>

text \<open>
  A call on the native service from outside, and the state of the service after it
  (whatever the call returned or threw).
\<close>

datatype 'a call =
  CallGet string js_params
  | CallAll string js_params
  | CallRun string js_params
  | CallTransaction "'a work"

fun perform :: "('db, 'stmt) driver \<Rightarrow> ('db, 'stmt) native \<Rightarrow> 'a call \<Rightarrow> ('db, 'stmt) native" where
  "perform drv st (CallGet sql params) = snd (native_get drv st sql params)"
| "perform drv st (CallAll sql params) = snd (native_all drv st sql params)"
| "perform drv st (CallRun sql params) = snd (native_run drv st sql params)"
| "perform drv st (CallTransaction fn) = snd (native_transaction drv st fn)"

section \<open>Notions used in the statements\<close>

text \<open>The pool bounds of a descriptor: none when it has no \<open>pool\<close> entry.\<close>

definition pool_bounds :: "knex_config \<Rightarrow> (js_number \<times> js_number) option" where
  "pool_bounds d = (case pool d of None \<Rightarrow> None | Some q \<Rightarrow> Some (pool_min q, pool_max q))"

section \<open>Concrete inputs\<close>

text \<open>A constructor of the query builder that succeeds: a new instance for a descriptor.\<close>

definition new_instance :: "knex_config js_prop \<Rightarrow> error + knex_instance" where
  "new_instance d = Inr \<lparr>instance_config = d, raw_built = [], executed = []\<rparr>"

text \<open>
  A small driver: the database is the list of the statements run so far, each with the
  parameters bound to it; a compiled statement is its text; the table \<open>missing\<close> does not
  exist.
\<close>

definition demo_driver :: "((string \<times> js_value list) list, string) driver" where
  "demo_driver =
     \<lparr>open_database = (\<lambda>filename. Inr []),
      pragma = (\<lambda>d text. Inr d),
      prepare = (\<lambda>d sql. if sql = ''SELECT * FROM missing''
                           then Inl (SqliteError ''no such table: missing'') else Inr sql),
      stmt_get = (\<lambda>stmt ps d. (Inr None, d)),
      stmt_all = (\<lambda>stmt ps d. (Inr [], d)),
      stmt_run = (\<lambda>stmt ps d.
        (Inr \<lparr>changes = 1, lastInsertRowid = int (length d) + 1\<rparr>, d @ [(stmt, ps)]))\<rparr>"

definition fresh_native :: "((string \<times> js_value list) list, string) native" where
  "fresh_native = \<lparr>nativeDb = [], statementCache = Map.empty, prepare_calls = [],
                   console_errors = []\<rparr>"

definition insert_then_throw :: "nat work" where
  "insert_then_throw =
     Run ''INSERT INTO t VALUES (?)'' (ParamArray [VInt 1]) (\<lambda>r. Throw (Error ''boom''))"

definition insert_then_return :: "nat work" where
  "insert_then_return =
     Run ''INSERT INTO t VALUES (?)'' (ParamArray [VInt 1]) (\<lambda>r. Return 7)"

section \<open>Properties of the configuration\<close>

lemma parseInt_defaults:
  "parseInt ''0'' = Num 0" "parseInt ''10'' = Num 10"
  "parseInt ''5432'' = Num 5432" "parseInt ''3306'' = Num 3306"
  by (simp_all add: parseInt_def is_js_space_def is_digit_in_def digit_value_def
      digits_value_def Let_def)

lemma config_change_env: "config (change_env p c) = config p"
  by (cases c) simp_all

lemma config_changes: "config (foldl change_env p cs) = config p"
  by (induction cs arbitrary: p) (simp_all add: config_change_env)

text \<open>
  C3, as amended. The resolver is evaluated once, when the configuration module is
  imported, from the environment of that moment: whatever assignments to and deletions
  from the environment follow, a request for a stage's descriptor returns the descriptor
  resolved from the environment the process started with.
\<close>

theorem resolver_evaluated_once:
  "stage_config (foldl change_env (start e0) cs) stage = config_get (knexfile e0) stage"
  by (simp add: stage_config_def config_changes start_def)

text \<open>
  The claim as stated fails: after \<open>DB_CLIENT\<close> is set to \<open>pg\<close> in a process started
  with an empty environment, the development descriptor is not the one the new
  environment resolves to.
\<close>

theorem resolver_reevaluated_counterexample:
  "stage_config (change_env (start Map.empty) (SetEnv ''DB_CLIENT'' ''pg'')) ''development''
     \<noteq> config_get
          (knexfile (process_env (change_env (start Map.empty) (SetEnv ''DB_CLIENT'' ''pg''))))
          ''development''"
  by (simp add: stage_config_def start_def config_get_def knexfile_def DB_CLIENT_def env_or_def
      getClientName_def)

text \<open>
  C6, as amended. In the development and production stages: when \<open>DB_CLIENT\<close> is unset,
  empty, \<open>better-sqlite3\<close> or \<open>sqlite3\<close>, the client is the embedded engine and the pool
  is min 1, max 1 (no timeouts), whatever \<open>DB_POOL_MIN\<close> and \<open>DB_POOL_MAX\<close> are; when it
  is \<open>pg\<close>, \<open>postgresql\<close>, \<open>mysql\<close> or \<open>mysql2\<close>, the pool is min
  \<open>parseInt(DB_POOL_MIN)\<close> (0 when unset or empty), max \<open>parseInt(DB_POOL_MAX)\<close> (10 when
  unset or empty), with acquire and idle timeouts of 30000 ms. The descriptor of the test
  stage has no pool entry.
\<close>

theorem pool_policy:
  "(e ''DB_CLIENT'' \<in> {None, Some '''', Some ''better-sqlite3'', Some ''sqlite3''} \<longrightarrow>
      client (development (knexfile e)) = ''better-sqlite3'' \<and>
      pool (development (knexfile e)) =
        Some \<lparr>pool_min = Num 1, pool_max = Num 1,
              acquireTimeoutMillis = None, idleTimeoutMillis = None\<rparr>) \<and>
   (e ''DB_CLIENT'' \<in> {Some ''pg'', Some ''postgresql'', Some ''mysql'', Some ''mysql2''} \<longrightarrow>
      pool (development (knexfile e)) =
        Some \<lparr>pool_min = parseInt (env_or e ''DB_POOL_MIN'' ''0''),
              pool_max = parseInt (env_or e ''DB_POOL_MAX'' ''10''),
              acquireTimeoutMillis = Some 30000, idleTimeoutMillis = Some 30000\<rparr> \<and>
      (e ''DB_POOL_MIN'' \<in> {None, Some ''''} \<longrightarrow>
         pool_bounds (development (knexfile e)) =
           Some (Num 0, parseInt (env_or e ''DB_POOL_MAX'' ''10''))) \<and>
      (e ''DB_POOL_MAX'' \<in> {None, Some ''''} \<longrightarrow>
         pool_bounds (development (knexfile e)) =
           Some (parseInt (env_or e ''DB_POOL_MIN'' ''0''), Num 10))) \<and>
   production (knexfile e) = development (knexfile e) \<and>
   pool (test (knexfile e)) = None"
  by (auto simp add: knexfile_def DB_CLIENT_def env_or_def getClientName_def
      buildPoolConfig_def pool_bounds_def parseInt_defaults)

theorem pool_policy_witness:
  "pool (development (knexfile [''DB_CLIENT'' \<mapsto> ''pg'', ''DB_POOL_MAX'' \<mapsto> ''20''])) =
     Some \<lparr>pool_min = Num 0, pool_max = Num 20,
           acquireTimeoutMillis = Some 30000, idleTimeoutMillis = Some 30000\<rparr> \<and>
   pool (development (knexfile [''DB_POOL_MAX'' \<mapsto> ''20''])) =
     Some \<lparr>pool_min = Num 1, pool_max = Num 1,
           acquireTimeoutMillis = None, idleTimeoutMillis = None\<rparr>"
  using pool_policy [of "[''DB_CLIENT'' \<mapsto> ''pg'', ''DB_POOL_MAX'' \<mapsto> ''20'']"]
    pool_policy [of "[''DB_POOL_MAX'' \<mapsto> ''20'']"]
  by (simp add: env_or_def parseInt_def is_js_space_def is_digit_in_def digit_value_def
      digits_value_def Let_def)

text \<open>
  The claim as stated fails twice. The test stage is the embedded engine and its
  descriptor has no pool bounds at all. With \<open>DB_CLIENT=sqlite\<close> (a token that is not
  recognised) the development stage is the embedded engine with the pool min 0, max 10.
\<close>

theorem pool_policy_counterexample:
  "client (test (knexfile Map.empty)) = ''better-sqlite3'' \<and>
   pool_bounds (test (knexfile Map.empty)) = None \<and>
   client (development (knexfile [''DB_CLIENT'' \<mapsto> ''sqlite''])) = ''better-sqlite3'' \<and>
   pool_bounds (development (knexfile [''DB_CLIENT'' \<mapsto> ''sqlite''])) = Some (Num 0, Num 10)"
  by (simp add: knexfile_def DB_CLIENT_def env_or_def getClientName_def
      buildPoolConfig_def pool_bounds_def parseInt_defaults)

text \<open>
  C7. Whatever the environment the process started with, and whatever changes of the
  environment followed, the descriptor of the test stage is the embedded engine on
  the file \<open>./data/test.sqlite3\<close>.
\<close>

theorem test_stage_fixed:
  "stage_config (foldl change_env (start e) cs) ''test'' =
     Own \<lparr>client = ''better-sqlite3'', connection = Filename ''./data/test.sqlite3'',
          pool = None, useNullAsDefault = True, migrations_directory = ''./migrations''\<rparr>"
  by (simp add: stage_config_def config_changes start_def config_get_def knexfile_def)

text \<open>
  C8. Every value of \<open>DB_CLIENT\<close> resolves to one of the three clients, and the resolver
  has no error branch: \<open>pg\<close> and \<open>postgresql\<close> give \<open>pg\<close> (with a connection string or
  connection parameters), \<open>mysql\<close> and \<open>mysql2\<close> give \<open>mysql2\<close> (with connection
  parameters), and every other value, the two embedded tokens and an unset variable
  among them, gives \<open>better-sqlite3\<close> (with a file name).
\<close>

theorem client_token_resolution:
  "(e ''DB_CLIENT'' = Some ''pg'' \<or> e ''DB_CLIENT'' = Some ''postgresql'' \<longrightarrow>
      client (development (knexfile e)) = ''pg'' \<and>
      ((\<exists>url. connection (development (knexfile e)) = ConnectionString url) \<or>
       (\<exists>ps. connection (development (knexfile e)) = ConnectionParams ps))) \<and>
   (e ''DB_CLIENT'' = Some ''mysql'' \<or> e ''DB_CLIENT'' = Some ''mysql2'' \<longrightarrow>
      client (development (knexfile e)) = ''mysql2'' \<and>
      (\<exists>ps. connection (development (knexfile e)) = ConnectionParams ps)) \<and>
   (e ''DB_CLIENT'' \<notin> {Some ''pg'', Some ''postgresql'', Some ''mysql'', Some ''mysql2''} \<longrightarrow>
      client (development (knexfile e)) = ''better-sqlite3'' \<and>
      (\<exists>f. connection (development (knexfile e)) = Filename f)) \<and>
   client (development (knexfile e)) \<in> {''pg'', ''mysql2'', ''better-sqlite3''} \<and>
   client (production (knexfile e)) = client (development (knexfile e)) \<and>
   connection (production (knexfile e)) = connection (development (knexfile e))"
  by (auto simp add: knexfile_def DB_CLIENT_def env_or_def getClientName_def
      buildConnectionConfig_def split: option.splits)

theorem client_token_resolution_witness:
  "client (development (knexfile [''DB_CLIENT'' \<mapsto> ''postgresql''])) = ''pg'' \<and>
   client (development (knexfile [''DB_CLIENT'' \<mapsto> ''mysql''])) = ''mysql2'' \<and>
   client (development (knexfile [''DB_CLIENT'' \<mapsto> ''oracle''])) = ''better-sqlite3'' \<and>
   client (development (knexfile Map.empty)) = ''better-sqlite3''"
  using client_token_resolution [of "[''DB_CLIENT'' \<mapsto> ''postgresql'']"]
    client_token_resolution [of "[''DB_CLIENT'' \<mapsto> ''mysql'']"]
    client_token_resolution [of "[''DB_CLIENT'' \<mapsto> ''oracle'']"]
    client_token_resolution [of Map.empty]
  by simp

text \<open>
  C10. Whatever the environment the process started with, and whatever changes of the
  environment followed, the development and the production stage have the same
  descriptor: the same client, connection, pool and null-as-default flag.
\<close>

theorem development_production_identical:
  "stage_config (foldl change_env (start e) cs) ''development'' =
   stage_config (foldl change_env (start e) cs) ''production''"
  by (simp add: stage_config_def config_changes start_def config_get_def knexfile_def)

section \<open>Properties of the query-builder service\<close>

lemma pragma_block_result:
  "pragma_block i = (Inr (), i\<lparr>raw_built := raw_built i @ pragma_settings\<rparr>)"
  by (simp add: pragma_block_def raw_def pragma_settings_def)

lemma embedded_client_active:
  "embedded_client (config_get cfg stage) =
     (config_client cfg stage = Some ''better-sqlite3'' \<or> config_client cfg stage = Some ''sqlite3'')"
  by (simp add: embedded_client_def config_client_def split: js_prop.splits)

text \<open>
  What the function does, for every process and instance: it never throws and logs
  nothing; it builds the four queries, in the order of the specification, exactly when
  the client of the active stage is the embedded engine, whatever descriptor the
  instance was created from; and it sends nothing to the database.
\<close>

lemma optimizations_result:
  "applyDatabaseOptimizations p i =
     (Inr (),
      (if embedded_client (config_get (config p) (active_stage p))
       then i\<lparr>raw_built := raw_built i @ pragma_settings\<rparr> else i),
      [])"
  by (simp add: applyDatabaseOptimizations_def embedded_client_active pragma_block_result Let_def)

lemma optimizations_never_throw: "fst (applyDatabaseOptimizations p i) = Inr ()"
  by (simp add: optimizations_result)

lemma optimizations_send_nothing:
  "executed (fst (snd (applyDatabaseOptimizations p i))) = executed i"
  by (simp add: optimizations_result)

lemma DB_connection_returns:
  "DBInstance (config_get (config p) stage) = Inr i \<Longrightarrow>
     DB_connection DBInstance p stage = Inr (snd (applyDatabaseOptimizations p i))"
  by (simp add: DB_connection_def optimizations_result)

text \<open>
  C2: the code at the failing inputs. In a process started with \<open>DB_CLIENT=pg\<close> and
  \<open>DB_CONNECTION=test\<close>, the descriptor of the production stage has the client \<open>pg\<close>,
  and \<open>DB.connection('production')\<close> builds the four pragmas on its instance. In a
  process started with \<open>DB_CLIENT=pg\<close> and \<open>DB_CONNECTION=development\<close>,
  \<open>DB.connection('test')\<close> returns an instance of the embedded engine on which no
  pragma was built. And in a process started with \<open>DB_CONNECTION=development\<close> alone,
  where the guard is right, the four pragmas are built on the embedded instance and
  none is sent to the database.
\<close>

theorem optimizations_guard_failing_input:
  "stage_config (start [''DB_CLIENT'' \<mapsto> ''pg'', ''DB_CONNECTION'' \<mapsto> ''test'']) ''production''
     = Own \<lparr>client = ''pg'',
            connection = ConnectionParams \<lparr>host = ''127.0.0.1'', port = Num 5432,
              user = ''postgres'', password = '''', database = ''laju''\<rparr>,
            pool = Some \<lparr>pool_min = Num 0, pool_max = Num 10,
              acquireTimeoutMillis = Some 30000, idleTimeoutMillis = Some 30000\<rparr>,
            useNullAsDefault = False, migrations_directory = ''./migrations''\<rparr> \<and>
   DB_connection new_instance
       (start [''DB_CLIENT'' \<mapsto> ''pg'', ''DB_CONNECTION'' \<mapsto> ''test'']) ''production''
     = Inr (\<lparr>instance_config =
               stage_config (start [''DB_CLIENT'' \<mapsto> ''pg'', ''DB_CONNECTION'' \<mapsto> ''test''])
                 ''production'',
             raw_built =
               [''PRAGMA journal_mode = WAL'', ''PRAGMA synchronous = NORMAL'',
                ''PRAGMA foreign_keys = ON'', ''PRAGMA busy_timeout = 5000''],
             executed = []\<rparr>, []) \<and>
   DB_connection new_instance
       (start [''DB_CLIENT'' \<mapsto> ''pg'', ''DB_CONNECTION'' \<mapsto> ''development'']) ''test''
     = Inr (\<lparr>instance_config =
               Own \<lparr>client = ''better-sqlite3'', connection = Filename ''./data/test.sqlite3'',
                    pool = None, useNullAsDefault = True,
                    migrations_directory = ''./migrations''\<rparr>,
             raw_built = [], executed = []\<rparr>, []) \<and>
   DB_connection new_instance (start [''DB_CONNECTION'' \<mapsto> ''development'']) ''development''
     = Inr (\<lparr>instance_config =
               stage_config (start [''DB_CONNECTION'' \<mapsto> ''development'']) ''development'',
             raw_built =
               [''PRAGMA journal_mode = WAL'', ''PRAGMA synchronous = NORMAL'',
                ''PRAGMA foreign_keys = ON'', ''PRAGMA busy_timeout = 5000''],
             executed = []\<rparr>, [])"
  by (simp add: DB_connection_def new_instance_def applyDatabaseOptimizations_def
      pragma_block_def raw_def active_stage_def start_def config_client_def config_get_def
      knexfile_def DB_CLIENT_def env_or_def getClientName_def stage_config_def
      buildConnectionConfig_def buildPoolConfig_def isSQLite_def parseInt_defaults Let_def)

section \<open>Properties of the native service\<close>

lemma embedded_has_file:
  assumes "config p = knexfile e0"
    and "embedded_client (config_get (config p) stage)"
  shows "\<exists>dbConfig filename.
           config_get (config p) stage = Own dbConfig \<and> connection dbConfig = Filename filename"
  using assms
  by (auto simp add: embedded_client_def config_get_def knexfile_def getClientName_def
      buildConnectionConfig_def split: if_splits)

lemma client_of_active_stage:
  "clientType p =
     (case config_get (config p) (env_or (process_env p) ''DB_CONNECTION'' ''development'') of
        Own d \<Rightarrow> Some (client d) | Inherited \<Rightarrow> None | Undefined \<Rightarrow> None)"
  by (simp add: clientType_def connectionType_def config_client_def)

lemma isSQLiteClient_embedded:
  "isSQLiteClient p =
     embedded_client
       (config_get (config p) (env_or (process_env p) ''DB_CONNECTION'' ''development''))"
  by (simp add: isSQLiteClient_def client_of_active_stage embedded_client_def
      split: js_prop.splits)

lemma stub_when_not_embedded:
  assumes "\<not> embedded_client
       (config_get (config p) (env_or (process_env p) ''DB_CONNECTION'' ''development''))"
  shows "SQLiteService drv p =
     Inr (Stub (''SQLite service is not available with ''
       @ (case config_get (config p) (env_or (process_env p) ''DB_CONNECTION'' ''development'') of
            Own d \<Rightarrow> client d | Inherited \<Rightarrow> ''undefined'' | Undefined \<Rightarrow> ''undefined'')
       @ '' client. Use DB service instead.''))"
  using assms
  by (simp add: SQLiteService_def isSQLiteClient_embedded createStubService_def errorMsg_def
      template_text_def client_of_active_stage split: js_prop.splits)

lemma native_when_driver_succeeds:
  assumes "config_get (config p) (env_or (process_env p) ''DB_CONNECTION'' ''development'')
             = Own dbConfig"
    and "client dbConfig = ''better-sqlite3'' \<or> client dbConfig = ''sqlite3''"
    and "connection dbConfig = Filename filename"
    and "open_database drv filename = Inr d0"
    and "native_pragmas drv d0 = Inr d"
  shows "SQLiteService drv p =
     Inr (Native \<lparr>nativeDb = d, statementCache = Map.empty, prepare_calls = [],
                  console_errors = []\<rparr>)"
proof -
  from assms(1,2) have "isSQLiteClient p"
    by (simp add: isSQLiteClient_embedded embedded_client_def)
  with assms show ?thesis
    by (simp add: SQLiteService_def createSQLiteService_def connectionType_def)
qed

lemma service_available_iff:
  "SQLiteService drv p = Inr svc \<Longrightarrow>
     isAvailable svc =
       embedded_client
         (config_get (config p) (env_or (process_env p) ''DB_CONNECTION'' ''development''))"
proof (cases "isSQLiteClient p")
  case True
  assume "SQLiteService drv p = Inr svc"
  with True have "createSQLiteService drv p = Inr svc" by (simp add: SQLiteService_def)
  then have "isAvailable svc"
    by (auto simp add: createSQLiteService_def isAvailable_def
        split: js_prop.splits connection_config.splits sum.splits)
  with True show ?thesis by (simp add: isSQLiteClient_embedded)
next
  case False
  assume "SQLiteService drv p = Inr svc"
  with False have "svc = createStubService p" by (simp add: SQLiteService_def)
  with False show ?thesis
    by (simp add: isSQLiteClient_embedded createStubService_def isAvailable_def)
qed

lemma import_fails_only_embedded:
  "SQLiteService drv p = Inl err \<Longrightarrow>
     embedded_client
       (config_get (config p) (env_or (process_env p) ''DB_CONNECTION'' ''development''))"
  by (cases "isSQLiteClient p") (simp_all add: SQLiteService_def isSQLiteClient_embedded)

text \<open>
  C1. The active stage is the one \<open>DB_CONNECTION\<close> names, \<open>development\<close> when the
  variable is unset or empty.

  When the client of the active stage is not the embedded engine, the import yields
  the stub: \<open>isAvailable\<close> is false, \<open>getDatabase\<close> returns null, and every call of
  \<open>get\<close>, \<open>all\<close>, \<open>run\<close> and \<open>transaction\<close> throws the one message that names the
  client of the active stage (\<open>undefined\<close> when the stage has no descriptor) and tells
  to use the DB service.

  When the client of the active stage is the embedded engine, and the driver opens the
  file of the stage's descriptor and sets the four pragmas, the import yields the native
  service on that database, with an empty statement cache: \<open>isAvailable\<close> is true and
  \<open>getDatabase\<close> returns the database. A descriptor of the configuration module with
  the embedded client always has a file.

  Whenever the import yields a service, \<open>isAvailable\<close> is true exactly when the client
  of the active stage is the embedded engine; the import can only fail when it is.
\<close>

theorem native_service_availability:
  "(\<not> embedded_client
        (config_get (config p) (env_or (process_env p) ''DB_CONNECTION'' ''development'')) \<longrightarrow>
      (\<exists>msg.
         msg = ''SQLite service is not available with ''
           @ (case config_get (config p)
                     (env_or (process_env p) ''DB_CONNECTION'' ''development'') of
                Own c \<Rightarrow> client c | Inherited \<Rightarrow> ''undefined'' | Undefined \<Rightarrow> ''undefined'')
           @ '' client. Use DB service instead.'' \<and>
         SQLiteService (drv :: ('db, 'stmt) driver) p = Inr (Stub msg) \<and>
         \<not> isAvailable (Stub msg :: ('db, 'stmt) service) \<and>
         getDatabase (Stub msg :: ('db, 'stmt) service) = None \<and>
         (\<forall>sql params. svc_get drv (Stub msg) sql params = (Inl (Error msg), Stub msg)) \<and>
         (\<forall>sql params. svc_all drv (Stub msg) sql params = (Inl (Error msg), Stub msg)) \<and>
         (\<forall>sql params. svc_run drv (Stub msg) sql params = (Inl (Error msg), Stub msg)) \<and>
         (\<forall>fn :: 'a work.
            svc_transaction drv (Stub msg) fn = (Inl (Error msg), Stub msg)))) \<and>
   (\<forall>dbConfig filename d0 d.
      config_get (config p) (env_or (process_env p) ''DB_CONNECTION'' ''development'')
        = Own dbConfig \<and>
      (client dbConfig = ''better-sqlite3'' \<or> client dbConfig = ''sqlite3'') \<and>
      connection dbConfig = Filename filename \<and>
      open_database drv filename = Inr d0 \<and> native_pragmas drv d0 = Inr d \<longrightarrow>
        SQLiteService drv p =
          Inr (Native \<lparr>nativeDb = d, statementCache = Map.empty, prepare_calls = [],
                       console_errors = []\<rparr>) \<and>
        isAvailable (Native \<lparr>nativeDb = d, statementCache = Map.empty :: string \<rightharpoonup> 'stmt,
                             prepare_calls = [], console_errors = []\<rparr>) \<and>
        getDatabase (Native \<lparr>nativeDb = d, statementCache = Map.empty :: string \<rightharpoonup> 'stmt,
                             prepare_calls = [], console_errors = []\<rparr>) = Some d) \<and>
   (\<forall>e0. config p = knexfile e0 \<and>
      embedded_client
        (config_get (config p) (env_or (process_env p) ''DB_CONNECTION'' ''development'')) \<longrightarrow>
        (\<exists>dbConfig filename.
           config_get (config p) (env_or (process_env p) ''DB_CONNECTION'' ''development'')
             = Own dbConfig \<and>
           connection dbConfig = Filename filename)) \<and>
   (\<forall>svc. SQLiteService drv p = Inr svc \<longrightarrow>
      (isAvailable svc \<longleftrightarrow>
         embedded_client
           (config_get (config p) (env_or (process_env p) ''DB_CONNECTION'' ''development'')))) \<and>
   (\<forall>err. SQLiteService drv p = Inl err \<longrightarrow>
      embedded_client
        (config_get (config p) (env_or (process_env p) ''DB_CONNECTION'' ''development'')))"
proof (intro conjI allI impI)
  assume n: "\<not> embedded_client
        (config_get (config p) (env_or (process_env p) ''DB_CONNECTION'' ''development''))"
  from stub_when_not_embedded [OF n, of drv]
  show "\<exists>msg.
         msg = ''SQLite service is not available with ''
           @ (case config_get (config p)
                     (env_or (process_env p) ''DB_CONNECTION'' ''development'') of
                Own c \<Rightarrow> client c | Inherited \<Rightarrow> ''undefined'' | Undefined \<Rightarrow> ''undefined'')
           @ '' client. Use DB service instead.'' \<and>
         SQLiteService drv p = Inr (Stub msg) \<and>
         \<not> isAvailable (Stub msg :: ('db, 'stmt) service) \<and>
         getDatabase (Stub msg :: ('db, 'stmt) service) = None \<and>
         (\<forall>sql params. svc_get drv (Stub msg) sql params = (Inl (Error msg), Stub msg)) \<and>
         (\<forall>sql params. svc_all drv (Stub msg) sql params = (Inl (Error msg), Stub msg)) \<and>
         (\<forall>sql params. svc_run drv (Stub msg) sql params = (Inl (Error msg), Stub msg)) \<and>
         (\<forall>fn :: 'a work.
            svc_transaction drv (Stub msg) fn = (Inl (Error msg), Stub msg))"
    by (simp add: isAvailable_def getDatabase_def svc_get_def svc_all_def svc_run_def
        svc_transaction_def)
next
  fix dbConfig filename d0 d
  assume a: "config_get (config p) (env_or (process_env p) ''DB_CONNECTION'' ''development'')
        = Own dbConfig \<and>
      (client dbConfig = ''better-sqlite3'' \<or> client dbConfig = ''sqlite3'') \<and>
      connection dbConfig = Filename filename \<and>
      open_database drv filename = Inr d0 \<and> native_pragmas drv d0 = Inr d"
  then show "SQLiteService drv p =
          Inr (Native \<lparr>nativeDb = d, statementCache = Map.empty, prepare_calls = [],
                       console_errors = []\<rparr>)"
    using native_when_driver_succeeds [of p dbConfig filename drv d0 d] by blast
  show "isAvailable (Native \<lparr>nativeDb = d, statementCache = Map.empty :: string \<rightharpoonup> 'stmt,
                             prepare_calls = [], console_errors = []\<rparr>)"
    by (simp add: isAvailable_def)
  show "getDatabase (Native \<lparr>nativeDb = d, statementCache = Map.empty :: string \<rightharpoonup> 'stmt,
                             prepare_calls = [], console_errors = []\<rparr>) = Some d"
    by (simp add: getDatabase_def)
next
  fix e0
  assume "config p = knexfile e0 \<and>
      embedded_client
        (config_get (config p) (env_or (process_env p) ''DB_CONNECTION'' ''development''))"
  then show "\<exists>dbConfig filename.
           config_get (config p) (env_or (process_env p) ''DB_CONNECTION'' ''development'')
             = Own dbConfig \<and>
           connection dbConfig = Filename filename"
    using embedded_has_file [of p e0] by blast
next
  fix svc
  assume "SQLiteService drv p = Inr svc"
  from service_available_iff [OF this]
  show "isAvailable svc \<longleftrightarrow>
         embedded_client
           (config_get (config p) (env_or (process_env p) ''DB_CONNECTION'' ''development''))" .
next
  fix err
  assume "SQLiteService drv p = Inl err"
  from import_fails_only_embedded [OF this]
  show "embedded_client
        (config_get (config p) (env_or (process_env p) ''DB_CONNECTION'' ''development''))" .
qed

theorem native_service_availability_witness:
  "SQLiteService demo_driver (start [''DB_CLIENT'' \<mapsto> ''mysql'']) =
     Inr (Stub ''SQLite service is not available with mysql2 client. Use DB service instead.'') \<and>
   svc_get demo_driver
       (Stub ''SQLite service is not available with mysql2 client. Use DB service instead.'')
       ''SELECT 1'' ParamUndefined =
     (Inl (Error ''SQLite service is not available with mysql2 client. Use DB service instead.''),
      Stub ''SQLite service is not available with mysql2 client. Use DB service instead.'') \<and>
   SQLiteService demo_driver
       (start [''DB_CLIENT'' \<mapsto> ''pg'', ''DB_CONNECTION'' \<mapsto> ''production'']) =
     Inr (Stub ''SQLite service is not available with pg client. Use DB service instead.'') \<and>
   SQLiteService demo_driver (start [''DB_CLIENT'' \<mapsto> ''pg'', ''DB_CONNECTION'' \<mapsto> ''test'']) =
     Inr (Native fresh_native) \<and>
   isAvailable (Native fresh_native) \<and>
   getDatabase (Native fresh_native) = Some []"
proof -
  let ?p1 = "start [''DB_CLIENT'' \<mapsto> ''mysql'']"
  let ?p2 = "start [''DB_CLIENT'' \<mapsto> ''pg'', ''DB_CONNECTION'' \<mapsto> ''production'']"
  let ?p3 = "start [''DB_CLIENT'' \<mapsto> ''pg'', ''DB_CONNECTION'' \<mapsto> ''test'']"
  have s1: "config_get (config ?p1) (env_or (process_env ?p1) ''DB_CONNECTION'' ''development'')
      = Own (development (knexfile [''DB_CLIENT'' \<mapsto> ''mysql'']))"
    by (simp add: start_def env_or_def config_get_def)
  have c1: "client (development (knexfile [''DB_CLIENT'' \<mapsto> ''mysql''])) = ''mysql2''"
    by (simp add: knexfile_def DB_CLIENT_def env_or_def getClientName_def)
  have s2: "config_get (config ?p2) (env_or (process_env ?p2) ''DB_CONNECTION'' ''development'')
      = Own (production (knexfile [''DB_CLIENT'' \<mapsto> ''pg'', ''DB_CONNECTION'' \<mapsto> ''production'']))"
    by (simp add: start_def env_or_def config_get_def)
  have c2: "client (production
      (knexfile [''DB_CLIENT'' \<mapsto> ''pg'', ''DB_CONNECTION'' \<mapsto> ''production''])) = ''pg''"
    by (simp add: knexfile_def DB_CLIENT_def env_or_def getClientName_def)
  have s3: "config_get (config ?p3) (env_or (process_env ?p3) ''DB_CONNECTION'' ''development'')
      = Own (test (knexfile [''DB_CLIENT'' \<mapsto> ''pg'', ''DB_CONNECTION'' \<mapsto> ''test'']))"
    by (simp add: start_def env_or_def config_get_def)
  have c3: "client (test (knexfile [''DB_CLIENT'' \<mapsto> ''pg'', ''DB_CONNECTION'' \<mapsto> ''test'']))
        = ''better-sqlite3''"
    and f3: "connection (test (knexfile [''DB_CLIENT'' \<mapsto> ''pg'', ''DB_CONNECTION'' \<mapsto> ''test'']))
        = Filename ''./data/test.sqlite3''"
    by (simp_all add: knexfile_def)
  have o3: "open_database demo_driver ''./data/test.sqlite3'' = Inr []"
    and g3: "native_pragmas demo_driver [] = Inr []"
    by (simp_all add: demo_driver_def native_pragmas_def)
  note t1 = native_service_availability
    [where p = ?p1 and drv = demo_driver and ?'a = nat, THEN conjunct1]
  note t2 = native_service_availability
    [where p = ?p2 and drv = demo_driver and ?'a = nat, THEN conjunct1]
  note t3 = native_service_availability
    [where p = ?p3 and drv = demo_driver and ?'a = nat, THEN conjunct2, THEN conjunct1]
  from t1 have r1:
    "SQLiteService demo_driver ?p1 =
       Inr (Stub ''SQLite service is not available with mysql2 client. Use DB service instead.'')"
    "svc_get demo_driver
       (Stub ''SQLite service is not available with mysql2 client. Use DB service instead.'')
       ''SELECT 1'' ParamUndefined =
     (Inl (Error ''SQLite service is not available with mysql2 client. Use DB service instead.''),
      Stub ''SQLite service is not available with mysql2 client. Use DB service instead.'')"
    unfolding s1 by (simp_all add: c1 embedded_client_def)
  from t2 have r2:
    "SQLiteService demo_driver ?p2 =
       Inr (Stub ''SQLite service is not available with pg client. Use DB service instead.'')"
    unfolding s2 by (simp add: c2 embedded_client_def)
  from t3 s3 c3 f3 o3 g3 have r3:
    "SQLiteService demo_driver ?p3 = Inr (Native fresh_native)"
    "isAvailable (Native fresh_native)"
    "getDatabase (Native fresh_native) = Some []"
    by (simp_all add: fresh_native_def)
  from r1 r2 r3 show ?thesis by simp
qed

text \<open>
  C5. For every unit of work \<open>fn\<close> on the native service: when \<open>fn\<close> returns a value,
  \<open>transaction(fn)\<close> returns that value and the database is as the calls of \<open>fn\<close> on
  the handle left it; when \<open>fn\<close> throws, \<open>transaction(fn)\<close> throws the same error and
  the database is as it was before the call.
\<close>

theorem transaction_atomic:
  "(run_work drv fn st = (Inr v, st') \<longrightarrow>
      native_transaction drv st fn = (Inr v, st') \<and>
      svc_transaction drv (Native st) fn = (Inr v, Native st')) \<and>
   (run_work drv fn st = (Inl err, st') \<longrightarrow>
      fst (native_transaction drv st fn) = Inl err \<and>
      nativeDb (snd (native_transaction drv st fn)) = nativeDb st \<and>
      fst (svc_transaction drv (Native st) fn) = Inl err \<and>
      getDatabase (snd (svc_transaction drv (Native st) fn)) = Some (nativeDb st))"
  by (simp add: native_transaction_def nativeDb_transaction_def svc_transaction_def
      getDatabase_def)

lemma demo_insert:
  "native_run demo_driver fresh_native ''INSERT INTO t VALUES (?)'' (ParamArray [VInt 1]) =
     (Inr \<lparr>changes = 1, lastInsertRowid = 1\<rparr>,
      \<lparr>nativeDb = [(''INSERT INTO t VALUES (?)'', [VInt 1])],
       statementCache = [''INSERT INTO t VALUES (?)'' \<mapsto> ''INSERT INTO t VALUES (?)''],
       prepare_calls = [''INSERT INTO t VALUES (?)''], console_errors = []\<rparr>)"
  by (simp add: native_run_def parameters_of_def cached_statement_def cache_read_def
      fresh_native_def demo_driver_def object_prototype_keys_def log_and_rethrow_def)

theorem transaction_atomic_witness:
  "native_transaction demo_driver fresh_native insert_then_return =
     (Inr 7,
      \<lparr>nativeDb = [(''INSERT INTO t VALUES (?)'', [VInt 1])],
       statementCache = [''INSERT INTO t VALUES (?)'' \<mapsto> ''INSERT INTO t VALUES (?)''],
       prepare_calls = [''INSERT INTO t VALUES (?)''], console_errors = []\<rparr>) \<and>
   fst (native_transaction demo_driver fresh_native insert_then_throw) = Inl (Error ''boom'') \<and>
   nativeDb (snd (native_transaction demo_driver fresh_native insert_then_throw)) = []"
proof -
  have r: "run_work demo_driver insert_then_return fresh_native =
     (Inr 7,
      \<lparr>nativeDb = [(''INSERT INTO t VALUES (?)'', [VInt 1])],
       statementCache = [''INSERT INTO t VALUES (?)'' \<mapsto> ''INSERT INTO t VALUES (?)''],
       prepare_calls = [''INSERT INTO t VALUES (?)''], console_errors = []\<rparr>)"
    by (simp add: insert_then_return_def demo_insert)
  have t: "run_work demo_driver insert_then_throw fresh_native =
     (Inl (Error ''boom''),
      \<lparr>nativeDb = [(''INSERT INTO t VALUES (?)'', [VInt 1])],
       statementCache = [''INSERT INTO t VALUES (?)'' \<mapsto> ''INSERT INTO t VALUES (?)''],
       prepare_calls = [''INSERT INTO t VALUES (?)''], console_errors = []\<rparr>)"
    by (simp add: insert_then_throw_def demo_insert)
  have f: "nativeDb fresh_native = []" by (simp add: fresh_native_def)
  from transaction_atomic [of demo_driver insert_then_return fresh_native, THEN conjunct1] r
    transaction_atomic [of demo_driver insert_then_throw fresh_native, THEN conjunct2] t f
  show ?thesis by simp
qed

text \<open>
  C9. In \<open>get\<close>, \<open>all\<close> and \<open>run\<close>: an array is bound as it is, and a plain object is
  bound as the list of its values, in enumeration order. Whenever the statement is
  there (cached or compiled), the operation is the driver's call on that statement with
  exactly these parameters.
\<close>

theorem params_coercion:
  "parameters_of (ParamArray ps) = Inr ps \<and>
   parameters_of (ParamObject kvs) = Inr (map snd kvs) \<and>
   (cached_statement ''get'' drv st sql = (Inr stmt, st1) \<longrightarrow>
      native_get drv st sql (ParamArray ps) =
        log_and_rethrow ''SQLite get error:''
          (case stmt_get drv stmt ps (nativeDb st1) of (r, d) \<Rightarrow> (r, st1\<lparr>nativeDb := d\<rparr>)) \<and>
      native_get drv st sql (ParamObject kvs) =
        log_and_rethrow ''SQLite get error:''
          (case stmt_get drv stmt (map snd kvs) (nativeDb st1) of
             (r, d) \<Rightarrow> (r, st1\<lparr>nativeDb := d\<rparr>))) \<and>
   (cached_statement ''all'' drv st sql = (Inr stmt, st1) \<longrightarrow>
      native_all drv st sql (ParamArray ps) =
        log_and_rethrow ''SQLite all error:''
          (case stmt_all drv stmt ps (nativeDb st1) of (r, d) \<Rightarrow> (r, st1\<lparr>nativeDb := d\<rparr>)) \<and>
      native_all drv st sql (ParamObject kvs) =
        log_and_rethrow ''SQLite all error:''
          (case stmt_all drv stmt (map snd kvs) (nativeDb st1) of
             (r, d) \<Rightarrow> (r, st1\<lparr>nativeDb := d\<rparr>))) \<and>
   (cached_statement ''run'' drv st sql = (Inr stmt, st1) \<longrightarrow>
      native_run drv st sql (ParamArray ps) =
        log_and_rethrow ''SQLite run error:''
          (case stmt_run drv stmt ps (nativeDb st1) of (r, d) \<Rightarrow> (r, st1\<lparr>nativeDb := d\<rparr>)) \<and>
      native_run drv st sql (ParamObject kvs) =
        log_and_rethrow ''SQLite run error:''
          (case stmt_run drv stmt (map snd kvs) (nativeDb st1) of
             (r, d) \<Rightarrow> (r, st1\<lparr>nativeDb := d\<rparr>)))"
  by (simp add: parameters_of_def native_get_def native_all_def native_run_def)

lemma demo_statement:
  "cached_statement ''run'' demo_driver fresh_native ''INSERT INTO t VALUES (?, ?)'' =
     (Inr ''INSERT INTO t VALUES (?, ?)'',
      fresh_native\<lparr>prepare_calls := [''INSERT INTO t VALUES (?, ?)''],
        statementCache := [''INSERT INTO t VALUES (?, ?)'' \<mapsto> ''INSERT INTO t VALUES (?, ?)'']\<rparr>)"
  by (simp add: cached_statement_def cache_read_def fresh_native_def demo_driver_def
      object_prototype_keys_def)

theorem params_coercion_witness:
  "nativeDb (snd (native_run demo_driver fresh_native ''INSERT INTO t VALUES (?, ?)''
      (ParamObject [(''b'', VInt 2), (''a'', VText ''x'')]))) =
     [(''INSERT INTO t VALUES (?, ?)'', [VInt 2, VText ''x''])] \<and>
   nativeDb (snd (native_run demo_driver fresh_native ''INSERT INTO t VALUES (?, ?)''
      (ParamArray [VInt 2, VText ''x'']))) =
     [(''INSERT INTO t VALUES (?, ?)'', [VInt 2, VText ''x''])]"
  using params_coercion [of "[VInt 2, VText ''x'']" "[(''b'', VInt 2), (''a'', VText ''x'')]"
      demo_driver fresh_native "''INSERT INTO t VALUES (?, ?)''" "''INSERT INTO t VALUES (?, ?)''"
      "fresh_native\<lparr>prepare_calls := [''INSERT INTO t VALUES (?, ?)''],
        statementCache := [''INSERT INTO t VALUES (?, ?)'' \<mapsto> ''INSERT INTO t VALUES (?, ?)'']\<rparr>"]
    demo_statement
  by (simp add: log_and_rethrow_def fresh_native_def demo_driver_def)

lemma log_and_rethrow_snd:
  "statementCache (snd (log_and_rethrow l r)) = statementCache (snd r)"
  "prepare_calls (snd (log_and_rethrow l r)) = prepare_calls (snd r)"
  "nativeDb (snd (log_and_rethrow l r)) = nativeDb (snd r)"
  by (simp_all add: log_and_rethrow_def split: prod.splits sum.splits)

lemma log_and_rethrow_fst: "fst (log_and_rethrow l r) = fst r"
  by (simp add: log_and_rethrow_def split: prod.splits sum.splits)

text \<open>The cache and the compile counter after an operation are those after the shared lines.\<close>

lemma native_get_cache:
  "statementCache (snd (native_get drv st sql params)) =
     (case parameters_of params of Inl err \<Rightarrow> statementCache st
      | Inr ps \<Rightarrow> statementCache (snd (cached_statement ''get'' drv st sql)))"
  "prepare_calls (snd (native_get drv st sql params)) =
     (case parameters_of params of Inl err \<Rightarrow> prepare_calls st
      | Inr ps \<Rightarrow> prepare_calls (snd (cached_statement ''get'' drv st sql)))"
  by (simp_all add: native_get_def log_and_rethrow_snd split: sum.splits prod.splits)

lemma native_all_cache:
  "statementCache (snd (native_all drv st sql params)) =
     (case parameters_of params of Inl err \<Rightarrow> statementCache st
      | Inr ps \<Rightarrow> statementCache (snd (cached_statement ''all'' drv st sql)))"
  "prepare_calls (snd (native_all drv st sql params)) =
     (case parameters_of params of Inl err \<Rightarrow> prepare_calls st
      | Inr ps \<Rightarrow> prepare_calls (snd (cached_statement ''all'' drv st sql)))"
  by (simp_all add: native_all_def log_and_rethrow_snd split: sum.splits prod.splits)

lemma native_run_cache:
  "statementCache (snd (native_run drv st sql params)) =
     (case parameters_of params of Inl err \<Rightarrow> statementCache st
      | Inr ps \<Rightarrow> statementCache (snd (cached_statement ''run'' drv st sql)))"
  "prepare_calls (snd (native_run drv st sql params)) =
     (case parameters_of params of Inl err \<Rightarrow> prepare_calls st
      | Inr ps \<Rightarrow> prepare_calls (snd (cached_statement ''run'' drv st sql)))"
  by (simp_all add: native_run_def log_and_rethrow_snd split: sum.splits prod.splits)

lemma cached_statement_hit:
  "statementCache st sql = Some s \<Longrightarrow> cached_statement m drv st sql = (Inr s, st)"
  by (simp add: cached_statement_def cache_read_def)

lemma cached_statement_compile:
  assumes "statementCache st sql = None" "sql \<notin> set object_prototype_keys"
  shows "statementCache (snd (cached_statement m drv st sql)) =
           (case prepare drv (nativeDb st) sql of Inl err \<Rightarrow> statementCache st
            | Inr s \<Rightarrow> (statementCache st)(sql \<mapsto> s))"
    and "prepare_calls (snd (cached_statement m drv st sql)) = prepare_calls st @ [sql]"
  using assms by (simp_all add: cached_statement_def cache_read_def split: sum.splits)

lemma cached_statement_other:
  "k \<noteq> sql \<Longrightarrow> statementCache (snd (cached_statement m drv st sql)) k = statementCache st k"
  by (simp add: cached_statement_def cache_read_def split: sum.splits option.splits)

lemma cached_statement_keeps:
  assumes "statementCache st k = Some s"
  shows "statementCache (snd (cached_statement m drv st sql)) k = Some s \<and>
         count_list (prepare_calls (snd (cached_statement m drv st sql))) k =
           count_list (prepare_calls st) k"
proof (cases "k = sql")
  case True
  with assms show ?thesis by (simp add: cached_statement_hit)
next
  case False
  with assms show ?thesis
    by (simp add: cached_statement_def cache_read_def split: sum.splits option.splits)
qed

lemma native_ops_keep:
  assumes "statementCache st k = Some s"
  shows "statementCache (snd (native_get drv st sql params)) k = Some s \<and>
         count_list (prepare_calls (snd (native_get drv st sql params))) k =
           count_list (prepare_calls st) k"
    and "statementCache (snd (native_all drv st sql params)) k = Some s \<and>
         count_list (prepare_calls (snd (native_all drv st sql params))) k =
           count_list (prepare_calls st) k"
    and "statementCache (snd (native_run drv st sql params)) k = Some s \<and>
         count_list (prepare_calls (snd (native_run drv st sql params))) k =
           count_list (prepare_calls st) k"
  using assms cached_statement_keeps [OF assms]
  by (simp_all add: native_get_cache native_all_cache native_run_cache split: sum.splits)

lemma run_work_keeps:
  "statementCache st k = Some s \<Longrightarrow>
     statementCache (snd (run_work drv fn st)) k = Some s \<and>
     count_list (prepare_calls (snd (run_work drv fn st))) k = count_list (prepare_calls st) k"
proof (induction fn arbitrary: st)
  case (Return v)
  then show ?case by simp
next
  case (Throw err)
  then show ?case by simp
next
  case (Get sql params cont)
  obtain r st1 where g: "native_get drv st sql params = (r, st1)" by (cases "native_get drv st sql params")
  from native_ops_keep(1) [OF Get.prems, of drv sql params] g
  have k1: "statementCache st1 k = Some s"
    and c1: "count_list (prepare_calls st1) k = count_list (prepare_calls st) k" by simp_all
  from Get.IH [of "cont r" st1] k1 have
    "statementCache (snd (run_work drv (cont r) st1)) k = Some s \<and>
     count_list (prepare_calls (snd (run_work drv (cont r) st1))) k = count_list (prepare_calls st1) k"
    by blast
  with g c1 show ?case by simp
next
  case (All sql params cont)
  obtain r st1 where g: "native_all drv st sql params = (r, st1)" by (cases "native_all drv st sql params")
  from native_ops_keep(2) [OF All.prems, of drv sql params] g
  have k1: "statementCache st1 k = Some s"
    and c1: "count_list (prepare_calls st1) k = count_list (prepare_calls st) k" by simp_all
  from All.IH [of "cont r" st1] k1 have
    "statementCache (snd (run_work drv (cont r) st1)) k = Some s \<and>
     count_list (prepare_calls (snd (run_work drv (cont r) st1))) k = count_list (prepare_calls st1) k"
    by blast
  with g c1 show ?case by simp
next
  case (Run sql params cont)
  obtain r st1 where g: "native_run drv st sql params = (r, st1)" by (cases "native_run drv st sql params")
  from native_ops_keep(3) [OF Run.prems, of drv sql params] g
  have k1: "statementCache st1 k = Some s"
    and c1: "count_list (prepare_calls st1) k = count_list (prepare_calls st) k" by simp_all
  from Run.IH [of "cont r" st1] k1 have
    "statementCache (snd (run_work drv (cont r) st1)) k = Some s \<and>
     count_list (prepare_calls (snd (run_work drv (cont r) st1))) k = count_list (prepare_calls st1) k"
    by blast
  with g c1 show ?case by simp
qed

lemma native_transaction_cache:
  "statementCache (snd (native_transaction drv st fn)) = statementCache (snd (run_work drv fn st))"
  "prepare_calls (snd (native_transaction drv st fn)) = prepare_calls (snd (run_work drv fn st))"
  by (simp_all add: native_transaction_def nativeDb_transaction_def split: prod.splits sum.splits)

lemma perform_keeps:
  assumes "statementCache st k = Some s"
  shows "statementCache (perform drv st c) k = Some s \<and>
         count_list (prepare_calls (perform drv st c)) k = count_list (prepare_calls st) k"
  using native_ops_keep [OF assms] run_work_keeps [OF assms]
  by (cases c) (simp_all add: native_transaction_cache)

lemma calls_keep:
  "statementCache st k = Some s \<Longrightarrow>
     statementCache (foldl (perform drv) st cs) k = Some s \<and>
     count_list (prepare_calls (foldl (perform drv) st cs)) k = count_list (prepare_calls st) k"
proof (induction cs arbitrary: st)
  case Nil
  then show ?case by simp
next
  case (Cons c cs)
  from perform_keeps [OF Cons.prems, of drv c]
  have k1: "statementCache (perform drv st c) k = Some s"
    and c1: "count_list (prepare_calls (perform drv st c)) k = count_list (prepare_calls st) k"
    by simp_all
  from Cons.IH [OF k1] c1 show ?case by simp
qed

lemma perform_operation:
  assumes "c \<in> {CallGet sql params, CallAll sql params, CallRun sql params}"
  shows "\<exists>m. statementCache (perform drv st c) =
             (case parameters_of params of Inl err \<Rightarrow> statementCache st
              | Inr ps \<Rightarrow> statementCache (snd (cached_statement m drv st sql))) \<and>
           prepare_calls (perform drv st c) =
             (case parameters_of params of Inl err \<Rightarrow> prepare_calls st
              | Inr ps \<Rightarrow> prepare_calls (snd (cached_statement m drv st sql)))"
proof -
  from assms consider "c = CallGet sql params" | "c = CallAll sql params" | "c = CallRun sql params"
    by blast
  then show ?thesis
  proof cases
    case 1
    then show ?thesis using native_get_cache [of drv st sql params] by auto
  next
    case 2
    then show ?thesis using native_all_cache [of drv st sql params] by auto
  next
    case 3
    then show ?thesis using native_run_cache [of drv st sql params] by auto
  qed
qed

lemma parameters_not_null: "params \<noteq> ParamNull \<Longrightarrow> \<exists>ps. parameters_of params = Inr ps"
  by (cases params) (simp_all add: parameters_of_def)

lemma operation_hit:
  assumes "c \<in> {CallGet sql params, CallAll sql params, CallRun sql params}"
    and "statementCache st sql = Some s"
  shows "statementCache (perform drv st c) = statementCache st"
    and "prepare_calls (perform drv st c) = prepare_calls st"
proof -
  from perform_operation [OF assms(1), of drv st] obtain m where
    m: "statementCache (perform drv st c) =
             (case parameters_of params of Inl err \<Rightarrow> statementCache st
              | Inr ps \<Rightarrow> statementCache (snd (cached_statement m drv st sql)))"
       "prepare_calls (perform drv st c) =
             (case parameters_of params of Inl err \<Rightarrow> prepare_calls st
              | Inr ps \<Rightarrow> prepare_calls (snd (cached_statement m drv st sql)))"
    by blast
  have h: "cached_statement m drv st sql = (Inr s, st)"
    using assms(2) by (rule cached_statement_hit)
  show "statementCache (perform drv st c) = statementCache st"
    unfolding m(1) h by (simp split: sum.splits)
  show "prepare_calls (perform drv st c) = prepare_calls st"
    unfolding m(2) h by (simp split: sum.splits)
qed

lemma operation_miss:
  assumes "c \<in> {CallGet sql params, CallAll sql params, CallRun sql params}"
    and "statementCache st sql = None" and "sql \<notin> set object_prototype_keys"
    and "params \<noteq> ParamNull"
  shows "prepare_calls (perform drv st c) = prepare_calls st @ [sql]"
    and "statementCache (perform drv st c) =
          (case prepare drv (nativeDb st) sql of
             Inr stmt \<Rightarrow> (statementCache st)(sql \<mapsto> stmt)
           | Inl err \<Rightarrow> statementCache st)"
proof -
  from perform_operation [OF assms(1), of drv st] obtain m where
    m: "statementCache (perform drv st c) =
             (case parameters_of params of Inl err \<Rightarrow> statementCache st
              | Inr ps \<Rightarrow> statementCache (snd (cached_statement m drv st sql)))"
       "prepare_calls (perform drv st c) =
             (case parameters_of params of Inl err \<Rightarrow> prepare_calls st
              | Inr ps \<Rightarrow> prepare_calls (snd (cached_statement m drv st sql)))"
    by blast
  from parameters_not_null [OF assms(4)] obtain ps where ps: "parameters_of params = Inr ps"
    by blast
  show "prepare_calls (perform drv st c) = prepare_calls st @ [sql]"
    unfolding m(2) ps using cached_statement_compile(2) [OF assms(2,3), of m drv] by simp
  show "statementCache (perform drv st c) =
          (case prepare drv (nativeDb st) sql of
             Inr stmt \<Rightarrow> (statementCache st)(sql \<mapsto> stmt)
           | Inl err \<Rightarrow> statementCache st)"
    unfolding m(1) ps using cached_statement_compile(1) [OF assms(2,3), of m drv]
    by (simp split: sum.splits)
qed

lemma operation_other:
  assumes "c \<in> {CallGet sql params, CallAll sql params, CallRun sql params}"
    and "k \<noteq> sql"
  shows "statementCache (perform drv st c) k = statementCache st k"
proof -
  from perform_operation [OF assms(1), of drv st] obtain m where
    m: "statementCache (perform drv st c) =
             (case parameters_of params of Inl err \<Rightarrow> statementCache st
              | Inr ps \<Rightarrow> statementCache (snd (cached_statement m drv st sql)))"
    by blast
  show ?thesis
    unfolding m using cached_statement_other [OF assms(2), of m drv st]
    by (simp split: sum.splits)
qed

lemma cached_statement_compiled:
  assumes "statementCache st sql = None" and "sql \<notin> set object_prototype_keys"
  shows "cached_statement m drv st sql =
           (case prepare drv (nativeDb st) sql of
              Inl err \<Rightarrow> (Inl err, st\<lparr>prepare_calls := prepare_calls st @ [sql]\<rparr>)
            | Inr stmt \<Rightarrow>
                (Inr stmt,
                 st\<lparr>prepare_calls := prepare_calls st @ [sql],
                    statementCache := (statementCache st)(sql \<mapsto> stmt)\<rparr>))"
  using assms by (simp add: cached_statement_def cache_read_def)

text \<open>With a statement at hand, an operation is the driver's call on that statement.\<close>

lemma operations_execute:
  assumes "parameters_of params = Inr ps"
  shows "cached_statement ''get'' drv st sql = (Inr s, st1) \<Longrightarrow>
           fst (native_get drv st sql params) = fst (stmt_get drv s ps (nativeDb st1)) \<and>
           nativeDb (snd (native_get drv st sql params)) = snd (stmt_get drv s ps (nativeDb st1))"
    and "cached_statement ''all'' drv st sql = (Inr s, st1) \<Longrightarrow>
           fst (native_all drv st sql params) = fst (stmt_all drv s ps (nativeDb st1)) \<and>
           nativeDb (snd (native_all drv st sql params)) = snd (stmt_all drv s ps (nativeDb st1))"
    and "cached_statement ''run'' drv st sql = (Inr s, st1) \<Longrightarrow>
           fst (native_run drv st sql params) = fst (stmt_run drv s ps (nativeDb st1)) \<and>
           nativeDb (snd (native_run drv st sql params)) = snd (stmt_run drv s ps (nativeDb st1))"
  using assms
  by (simp_all add: native_get_def native_all_def native_run_def log_and_rethrow_fst
      log_and_rethrow_snd split: prod.splits)

text \<open>Without one, the error of the compilation is logged and thrown again.\<close>

lemma operations_rethrow:
  assumes "parameters_of params = Inr ps"
  shows "cached_statement ''get'' drv st sql = (Inl err, st1) \<Longrightarrow>
           native_get drv st sql params =
             (Inl err, st1\<lparr>console_errors := console_errors st1 @ [(''SQLite get error:'', err)]\<rparr>)"
    and "cached_statement ''all'' drv st sql = (Inl err, st1) \<Longrightarrow>
           native_all drv st sql params =
             (Inl err, st1\<lparr>console_errors := console_errors st1 @ [(''SQLite all error:'', err)]\<rparr>)"
    and "cached_statement ''run'' drv st sql = (Inl err, st1) \<Longrightarrow>
           native_run drv st sql params =
             (Inl err, st1\<lparr>console_errors := console_errors st1 @ [(''SQLite run error:'', err)]\<rparr>)"
  using assms
  by (simp_all add: native_get_def native_all_def native_run_def log_and_rethrow_def)

lemma hit_executes_stored:
  assumes "statementCache st sql = Some s" and "parameters_of params = Inr ps"
  shows "fst (native_get drv st sql params) = fst (stmt_get drv s ps (nativeDb st)) \<and>
         nativeDb (snd (native_get drv st sql params)) = snd (stmt_get drv s ps (nativeDb st)) \<and>
         fst (native_all drv st sql params) = fst (stmt_all drv s ps (nativeDb st)) \<and>
         nativeDb (snd (native_all drv st sql params)) = snd (stmt_all drv s ps (nativeDb st)) \<and>
         fst (native_run drv st sql params) = fst (stmt_run drv s ps (nativeDb st)) \<and>
         nativeDb (snd (native_run drv st sql params)) = snd (stmt_run drv s ps (nativeDb st))"
  using operations_execute [OF assms(2), of drv st sql s st]
    cached_statement_hit [OF assms(1), of _ drv]
  by simp

lemma compiled_is_executed:
  assumes "statementCache st sql = None" and "sql \<notin> set object_prototype_keys"
    and "parameters_of params = Inr ps" and "prepare drv (nativeDb st) sql = Inr s"
  shows "fst (native_get drv st sql params) = fst (stmt_get drv s ps (nativeDb st)) \<and>
         nativeDb (snd (native_get drv st sql params)) = snd (stmt_get drv s ps (nativeDb st)) \<and>
         fst (native_all drv st sql params) = fst (stmt_all drv s ps (nativeDb st)) \<and>
         nativeDb (snd (native_all drv st sql params)) = snd (stmt_all drv s ps (nativeDb st)) \<and>
         fst (native_run drv st sql params) = fst (stmt_run drv s ps (nativeDb st)) \<and>
         nativeDb (snd (native_run drv st sql params)) = snd (stmt_run drv s ps (nativeDb st))"
proof -
  let ?st1 = "st\<lparr>prepare_calls := prepare_calls st @ [sql],
                 statementCache := (statementCache st)(sql \<mapsto> s)\<rparr>"
  have c: "\<And>m. cached_statement m drv st sql = (Inr s, ?st1)"
    using cached_statement_compiled [OF assms(1,2), of _ drv] assms(4) by simp
  from operations_execute [OF assms(3), of drv st sql s ?st1] c show ?thesis by simp
qed

lemma failed_compile_rethrown:
  assumes "statementCache st sql = None" and "sql \<notin> set object_prototype_keys"
    and "parameters_of params = Inr ps" and "prepare drv (nativeDb st) sql = Inl err"
  shows "native_get drv st sql params =
           (Inl err, st\<lparr>prepare_calls := prepare_calls st @ [sql],
                         console_errors := console_errors st @ [(''SQLite get error:'', err)]\<rparr>) \<and>
         native_all drv st sql params =
           (Inl err, st\<lparr>prepare_calls := prepare_calls st @ [sql],
                         console_errors := console_errors st @ [(''SQLite all error:'', err)]\<rparr>) \<and>
         native_run drv st sql params =
           (Inl err, st\<lparr>prepare_calls := prepare_calls st @ [sql],
                         console_errors := console_errors st @ [(''SQLite run error:'', err)]\<rparr>)"
proof -
  let ?st1 = "st\<lparr>prepare_calls := prepare_calls st @ [sql]\<rparr>"
  have c: "\<And>m. cached_statement m drv st sql = (Inl err, ?st1)"
    using cached_statement_compiled [OF assms(1,2), of _ drv] assms(4) by simp
  from operations_rethrow [OF assms(3), of drv st sql err ?st1] c show ?thesis by simp
qed

text \<open>
  C4, as amended. \<open>get\<close>, \<open>all\<close> and \<open>run\<close> share one cache of compiled statements,
  keyed by the exact text. A call whose text has an entry reuses it: the cache and the
  compile counter are unchanged, and what the call returns or throws, and what it does
  to the database, is the driver's execution of the stored statement with the call's
  parameters. A call whose text has no entry (the text not being a property name every
  object inherits, the parameters not being null) compiles the text once; when the
  compilation succeeds the statement is stored under the text and it is the statement
  the call executes; when it fails nothing is stored, so that the next call compiles
  again, and the call logs the error of the compilation and throws it again, leaving
  the database as it was. A call leaves the entries of every other text as they are. An
  entry, once there, stays the same through every later sequence of calls (transactions
  among them), and its text is not compiled again.
\<close>

theorem statement_cache_shared:
  assumes "(c :: 'a call) \<in> {CallGet sql params, CallAll sql params, CallRun sql params}"
  shows
    "(\<forall>s. statementCache st sql = Some s \<longrightarrow>
        statementCache (perform drv st c) = statementCache st \<and>
        prepare_calls (perform drv st c) = prepare_calls st) \<and>
     (\<forall>s ps. statementCache st sql = Some s \<and> parameters_of params = Inr ps \<longrightarrow>
        fst (native_get drv st sql params) = fst (stmt_get drv s ps (nativeDb st)) \<and>
        nativeDb (snd (native_get drv st sql params)) = snd (stmt_get drv s ps (nativeDb st)) \<and>
        fst (native_all drv st sql params) = fst (stmt_all drv s ps (nativeDb st)) \<and>
        nativeDb (snd (native_all drv st sql params)) = snd (stmt_all drv s ps (nativeDb st)) \<and>
        fst (native_run drv st sql params) = fst (stmt_run drv s ps (nativeDb st)) \<and>
        nativeDb (snd (native_run drv st sql params)) = snd (stmt_run drv s ps (nativeDb st))) \<and>
     (statementCache st sql = None \<and> sql \<notin> set object_prototype_keys \<and> params \<noteq> ParamNull \<longrightarrow>
        prepare_calls (perform drv st c) = prepare_calls st @ [sql] \<and>
        statementCache (perform drv st c) =
          (case prepare drv (nativeDb st) sql of
             Inr stmt \<Rightarrow> (statementCache st)(sql \<mapsto> stmt)
           | Inl err \<Rightarrow> statementCache st)) \<and>
     (\<forall>s ps. statementCache st sql = None \<and> sql \<notin> set object_prototype_keys \<and>
        parameters_of params = Inr ps \<and> prepare drv (nativeDb st) sql = Inr s \<longrightarrow>
        fst (native_get drv st sql params) = fst (stmt_get drv s ps (nativeDb st)) \<and>
        nativeDb (snd (native_get drv st sql params)) = snd (stmt_get drv s ps (nativeDb st)) \<and>
        fst (native_all drv st sql params) = fst (stmt_all drv s ps (nativeDb st)) \<and>
        nativeDb (snd (native_all drv st sql params)) = snd (stmt_all drv s ps (nativeDb st)) \<and>
        fst (native_run drv st sql params) = fst (stmt_run drv s ps (nativeDb st)) \<and>
        nativeDb (snd (native_run drv st sql params)) = snd (stmt_run drv s ps (nativeDb st))) \<and>
     (\<forall>err ps. statementCache st sql = None \<and> sql \<notin> set object_prototype_keys \<and>
        parameters_of params = Inr ps \<and> prepare drv (nativeDb st) sql = Inl err \<longrightarrow>
        native_get drv st sql params =
          (Inl err, st\<lparr>prepare_calls := prepare_calls st @ [sql],
                        console_errors := console_errors st @ [(''SQLite get error:'', err)]\<rparr>) \<and>
        native_all drv st sql params =
          (Inl err, st\<lparr>prepare_calls := prepare_calls st @ [sql],
                        console_errors := console_errors st @ [(''SQLite all error:'', err)]\<rparr>) \<and>
        native_run drv st sql params =
          (Inl err, st\<lparr>prepare_calls := prepare_calls st @ [sql],
                        console_errors := console_errors st @ [(''SQLite run error:'', err)]\<rparr>)) \<and>
     (\<forall>k. k \<noteq> sql \<longrightarrow> statementCache (perform drv st c) k = statementCache st k) \<and>
     (\<forall>k stmt (cs :: 'a call list). statementCache (perform drv st c) k = Some stmt \<longrightarrow>
        statementCache (foldl (perform drv) (perform drv st c) cs) k = Some stmt \<and>
        count_list (prepare_calls (foldl (perform drv) (perform drv st c) cs)) k =
          count_list (prepare_calls (perform drv st c)) k)"
proof -
  have hit: "\<forall>s. statementCache st sql = Some s \<longrightarrow>
        statementCache (perform drv st c) = statementCache st \<and>
        prepare_calls (perform drv st c) = prepare_calls st"
    using operation_hit [OF assms, of st _ drv] by blast
  have hit_result: "\<forall>s ps. statementCache st sql = Some s \<and> parameters_of params = Inr ps \<longrightarrow>
        fst (native_get drv st sql params) = fst (stmt_get drv s ps (nativeDb st)) \<and>
        nativeDb (snd (native_get drv st sql params)) = snd (stmt_get drv s ps (nativeDb st)) \<and>
        fst (native_all drv st sql params) = fst (stmt_all drv s ps (nativeDb st)) \<and>
        nativeDb (snd (native_all drv st sql params)) = snd (stmt_all drv s ps (nativeDb st)) \<and>
        fst (native_run drv st sql params) = fst (stmt_run drv s ps (nativeDb st)) \<and>
        nativeDb (snd (native_run drv st sql params)) = snd (stmt_run drv s ps (nativeDb st))"
    using hit_executes_stored [of st sql _ params _ drv] by blast
  have miss: "statementCache st sql = None \<and> sql \<notin> set object_prototype_keys \<and> params \<noteq> ParamNull \<longrightarrow>
        prepare_calls (perform drv st c) = prepare_calls st @ [sql] \<and>
        statementCache (perform drv st c) =
          (case prepare drv (nativeDb st) sql of
             Inr stmt \<Rightarrow> (statementCache st)(sql \<mapsto> stmt)
           | Inl err \<Rightarrow> statementCache st)"
    using operation_miss [OF assms, of st drv] by blast
  have compiled: "\<forall>s ps. statementCache st sql = None \<and> sql \<notin> set object_prototype_keys \<and>
        parameters_of params = Inr ps \<and> prepare drv (nativeDb st) sql = Inr s \<longrightarrow>
        fst (native_get drv st sql params) = fst (stmt_get drv s ps (nativeDb st)) \<and>
        nativeDb (snd (native_get drv st sql params)) = snd (stmt_get drv s ps (nativeDb st)) \<and>
        fst (native_all drv st sql params) = fst (stmt_all drv s ps (nativeDb st)) \<and>
        nativeDb (snd (native_all drv st sql params)) = snd (stmt_all drv s ps (nativeDb st)) \<and>
        fst (native_run drv st sql params) = fst (stmt_run drv s ps (nativeDb st)) \<and>
        nativeDb (snd (native_run drv st sql params)) = snd (stmt_run drv s ps (nativeDb st))"
    using compiled_is_executed [of st sql params _ drv] by blast
  have failed: "\<forall>err ps. statementCache st sql = None \<and> sql \<notin> set object_prototype_keys \<and>
        parameters_of params = Inr ps \<and> prepare drv (nativeDb st) sql = Inl err \<longrightarrow>
        native_get drv st sql params =
          (Inl err, st\<lparr>prepare_calls := prepare_calls st @ [sql],
                        console_errors := console_errors st @ [(''SQLite get error:'', err)]\<rparr>) \<and>
        native_all drv st sql params =
          (Inl err, st\<lparr>prepare_calls := prepare_calls st @ [sql],
                        console_errors := console_errors st @ [(''SQLite all error:'', err)]\<rparr>) \<and>
        native_run drv st sql params =
          (Inl err, st\<lparr>prepare_calls := prepare_calls st @ [sql],
                        console_errors := console_errors st @ [(''SQLite run error:'', err)]\<rparr>)"
    using failed_compile_rethrown [of st sql params _ drv] by blast
  have other: "\<forall>k. k \<noteq> sql \<longrightarrow> statementCache (perform drv st c) k = statementCache st k"
    using operation_other [OF assms, of _ drv st] by blast
  have later: "\<forall>k stmt (cs :: 'a call list). statementCache (perform drv st c) k = Some stmt \<longrightarrow>
        statementCache (foldl (perform drv) (perform drv st c) cs) k = Some stmt \<and>
        count_list (prepare_calls (foldl (perform drv) (perform drv st c) cs)) k =
          count_list (prepare_calls (perform drv st c)) k"
    using calls_keep [of "perform drv st c" _ _ drv] by blast
  from hit hit_result miss compiled failed other later show ?thesis by (intro conjI)
qed

theorem statement_cache_shared_witness:
  "prepare_calls (perform demo_driver fresh_native (CallGet ''SELECT 1'' ParamUndefined :: nat call))
     = [''SELECT 1''] \<and>
   statementCache (perform demo_driver fresh_native (CallGet ''SELECT 1'' ParamUndefined :: nat call))
     ''SELECT 1'' = Some ''SELECT 1'' \<and>
   count_list (prepare_calls (foldl (perform demo_driver)
      (perform demo_driver fresh_native (CallGet ''SELECT 1'' ParamUndefined :: nat call))
      [CallAll ''SELECT 1'' ParamUndefined, CallRun ''SELECT 1'' (ParamArray []),
       CallGet ''SELECT 1'' ParamUndefined :: nat call])) ''SELECT 1'' = 1 \<and>
   fst (native_run demo_driver
      (perform demo_driver fresh_native (CallGet ''SELECT 1'' ParamUndefined :: nat call))
      ''SELECT 1'' (ParamArray [VInt 5])) = Inr \<lparr>changes = 1, lastInsertRowid = 1\<rparr> \<and>
   nativeDb (snd (native_run demo_driver
      (perform demo_driver fresh_native (CallGet ''SELECT 1'' ParamUndefined :: nat call))
      ''SELECT 1'' (ParamArray [VInt 5]))) = [(''SELECT 1'', [VInt 5])] \<and>
   native_get demo_driver fresh_native ''SELECT * FROM missing'' ParamUndefined =
     (Inl (SqliteError ''no such table: missing''),
      fresh_native\<lparr>prepare_calls := [''SELECT * FROM missing''],
        console_errors := [(''SQLite get error:'', SqliteError ''no such table: missing'')]\<rparr>)"
proof -
  let ?c = "CallGet ''SELECT 1'' ParamUndefined :: nat call"
  let ?cs = "[CallAll ''SELECT 1'' ParamUndefined, CallRun ''SELECT 1'' (ParamArray []),
       CallGet ''SELECT 1'' ParamUndefined :: nat call]"
  let ?st1 = "perform demo_driver fresh_native ?c"
  have m: "?c \<in> {CallGet ''SELECT 1'' ParamUndefined, CallAll ''SELECT 1'' ParamUndefined,
      CallRun ''SELECT 1'' ParamUndefined}" by simp
  have pre: "statementCache fresh_native ''SELECT 1'' = None \<and>
      ''SELECT 1'' \<notin> set object_prototype_keys \<and> ParamUndefined \<noteq> ParamNull"
    by (simp add: fresh_native_def object_prototype_keys_def)
  have comp: "prepare demo_driver (nativeDb fresh_native) ''SELECT 1'' = Inr ''SELECT 1''"
    by (simp add: demo_driver_def)
  note t = statement_cache_shared [OF m, of fresh_native demo_driver]
  from t pre comp have
    p1: "prepare_calls ?st1 = prepare_calls fresh_native @ [''SELECT 1'']"
    and s1: "statementCache ?st1 = (statementCache fresh_native)(''SELECT 1'' \<mapsto> ''SELECT 1'')"
    by simp_all
  from s1 have s2: "statementCache ?st1 ''SELECT 1'' = Some ''SELECT 1''"
    by simp
  from t s2 have later:
    "count_list (prepare_calls (foldl (perform demo_driver) ?st1 ?cs)) ''SELECT 1''
       = count_list (prepare_calls ?st1) ''SELECT 1''"
    by blast
  have m2: "(CallRun ''SELECT 1'' (ParamArray [VInt 5]) :: nat call) \<in>
      {CallGet ''SELECT 1'' (ParamArray [VInt 5]), CallAll ''SELECT 1'' (ParamArray [VInt 5]),
       CallRun ''SELECT 1'' (ParamArray [VInt 5])}" by simp
  have ps: "parameters_of (ParamArray [VInt 5]) = Inr [VInt 5]"
    by (simp add: parameters_of_def)
  have d1: "nativeDb ?st1 = []"
    by (simp add: native_get_def parameters_of_def cached_statement_def cache_read_def
        fresh_native_def demo_driver_def object_prototype_keys_def log_and_rethrow_def)
  note h = statement_cache_shared [OF m2, of ?st1 demo_driver, THEN conjunct2, THEN conjunct1,
      rule_format, OF conjI [OF s2 ps]]
  from h have
    "fst (native_run demo_driver ?st1 ''SELECT 1'' (ParamArray [VInt 5])) =
       fst (stmt_run demo_driver ''SELECT 1'' [VInt 5] (nativeDb ?st1)) \<and>
     nativeDb (snd (native_run demo_driver ?st1 ''SELECT 1'' (ParamArray [VInt 5]))) =
       snd (stmt_run demo_driver ''SELECT 1'' [VInt 5] (nativeDb ?st1))"
    by simp
  then have hit:
    "fst (native_run demo_driver ?st1 ''SELECT 1'' (ParamArray [VInt 5])) =
       Inr \<lparr>changes = 1, lastInsertRowid = 1\<rparr>"
    "nativeDb (snd (native_run demo_driver ?st1 ''SELECT 1'' (ParamArray [VInt 5]))) =
       [(''SELECT 1'', [VInt 5])]"
    unfolding d1 by (simp_all add: demo_driver_def)
  have m3: "(CallGet ''SELECT * FROM missing'' ParamUndefined :: nat call) \<in>
      {CallGet ''SELECT * FROM missing'' ParamUndefined,
       CallAll ''SELECT * FROM missing'' ParamUndefined,
       CallRun ''SELECT * FROM missing'' ParamUndefined}" by simp
  have pre3: "statementCache fresh_native ''SELECT * FROM missing'' = None \<and>
      ''SELECT * FROM missing'' \<notin> set object_prototype_keys \<and>
      parameters_of ParamUndefined = Inr [] \<and>
      prepare demo_driver (nativeDb fresh_native) ''SELECT * FROM missing''
        = Inl (SqliteError ''no such table: missing'')"
    by (simp add: fresh_native_def object_prototype_keys_def parameters_of_def demo_driver_def)
  note f = statement_cache_shared [OF m3, of fresh_native demo_driver, THEN conjunct2,
      THEN conjunct2, THEN conjunct2, THEN conjunct2, THEN conjunct1, rule_format, OF pre3]
  from f have
    "native_get demo_driver fresh_native ''SELECT * FROM missing'' ParamUndefined =
       (Inl (SqliteError ''no such table: missing''),
        fresh_native\<lparr>prepare_calls := prepare_calls fresh_native @ [''SELECT * FROM missing''],
          console_errors := console_errors fresh_native
            @ [(''SQLite get error:'', SqliteError ''no such table: missing'')]\<rparr>)"
    by simp
  then have failed:
    "native_get demo_driver fresh_native ''SELECT * FROM missing'' ParamUndefined =
     (Inl (SqliteError ''no such table: missing''),
      fresh_native\<lparr>prepare_calls := [''SELECT * FROM missing''],
        console_errors := [(''SQLite get error:'', SqliteError ''no such table: missing'')]\<rparr>)"
    by (simp add: fresh_native_def)
  from p1 s2 later hit failed show ?thesis by (simp add: fresh_native_def)
qed

text \<open>
  The claim as stated fails: a text whose compilation fails is compiled at every call
  and never stored; a text that is a property name every object inherits
  (\<open>constructor\<close>) is never compiled; and with null parameters the call throws before
  the cache is read.
\<close>

theorem statement_cache_counterexample:
  "prepare_calls (foldl (perform demo_driver) fresh_native
      [CallGet ''SELECT * FROM missing'' ParamUndefined,
       CallGet ''SELECT * FROM missing'' ParamUndefined :: nat call]) =
     [''SELECT * FROM missing'', ''SELECT * FROM missing''] \<and>
   statementCache (foldl (perform demo_driver) fresh_native
      [CallGet ''SELECT * FROM missing'' ParamUndefined,
       CallGet ''SELECT * FROM missing'' ParamUndefined :: nat call]) ''SELECT * FROM missing'' = None \<and>
   prepare_calls (perform demo_driver fresh_native
      (CallGet ''constructor'' ParamUndefined :: nat call)) = [] \<and>
   statementCache (perform demo_driver fresh_native
      (CallGet ''constructor'' ParamUndefined :: nat call)) ''constructor'' = None \<and>
   prepare_calls (perform demo_driver fresh_native
      (CallGet ''SELECT 1'' ParamNull :: nat call)) = [] \<and>
   statementCache (perform demo_driver fresh_native
      (CallGet ''SELECT 1'' ParamNull :: nat call)) ''SELECT 1'' = None"
  by (simp add: native_get_def parameters_of_def cached_statement_def cache_read_def
      fresh_native_def demo_driver_def object_prototype_keys_def log_and_rethrow_def)

end
